theory Spec2Isabelle
  imports Main "HOL-Library.Word"
begin

unbundle bit_operations_syntax

section \<open>Bytes, exceptions and parsed values\<close>

text \<open>
  A Python \<open>bytes\<close> or \<open>bytearray\<close> object is a list of 8-bit words. Python integers are
  unbounded and modelled by \<open>int\<close>. Every exception the modelled code can raise is a value of
  \<open>error\<close>; a function that may raise returns \<open>error + 'a\<close> with \<open>Inl\<close> for the exception.
\<close>

type_synonym byte = "8 word"

datatype error = ValueError | TypeError | IndexError | StreamError | ConstError
  | AttributeError | SerialException

definition ebind :: "error + 'a \<Rightarrow> ('a \<Rightarrow> error + 'b) \<Rightarrow> error + 'b" where
  "ebind m f = (case m of Inl e \<Rightarrow> Inl e | Inr x \<Rightarrow> f x)"

text \<open>
  The objects produced by the struct parsers of \<open>protocol.py\<close>: integers, byte strings, \<open>None\<close>
  (the value of a padding field), the labelled integer an enumeration yields for a known code
  (a string subclass that remembers its integer), and containers of named fields in
  declaration order.
\<close>

datatype pyval = PInt int | PBytes "byte list" | PNone | EnumIntegerString string int
  | Container "(string \<times> pyval) list"

section \<open>protocol.py: checksum\<close>

text \<open>\<open>calculate_checksum(data)\<close>: \<open>sum(data) % 256\<close> on both branches of the source.\<close>

definition calculate_checksum :: "byte list \<Rightarrow> int" where
  "calculate_checksum data = sum_list (map uint data) mod 256"

section \<open>protocol.py: declarative message layouts\<close>

text \<open>
  The layouts are written with a declarative struct library. The fragment the source uses:
  unsigned big-endian integers of 8 and 16 bits, fixed-size byte fields, padding, constants
  (parse the sub-field, raise \<open>ConstError\<close> when it differs), enumerations (parse the sub-field,
  replace a known code by its label, the label declared last winning when a code is declared
  twice; an unknown code stays a plain integer) and structs (parse the fields in order from
  the same stream). Reading past the end of the data raises \<open>StreamError\<close>.
\<close>

datatype subcon = Int8ub | Int16ub | Bytes nat | Padding nat | Const int subcon
  | Enum subcon "(string \<times> int) list" | Struct "(string \<times> subcon) list"

definition enum_decode :: "(string \<times> int) list \<Rightarrow> int \<Rightarrow> pyval" where
  "enum_decode mapping v =
     (case find (\<lambda>(name, code). code = v) (rev mapping) of
        None \<Rightarrow> PInt v
      | Some (name, code) \<Rightarrow> EnumIntegerString name v)"

fun parse_stream :: "subcon \<Rightarrow> byte list \<Rightarrow> error + (pyval \<times> byte list)"
  and parse_fields :: "(string \<times> subcon) list \<Rightarrow> byte list
      \<Rightarrow> error + ((string \<times> pyval) list \<times> byte list)" where
  "parse_stream Int8ub s =
     (case s of [] \<Rightarrow> Inl StreamError | b # r \<Rightarrow> Inr (PInt (uint b), r))"
| "parse_stream Int16ub s =
     (case s of hi # lo # r \<Rightarrow> Inr (PInt (uint hi * 256 + uint lo), r)
      | _ \<Rightarrow> Inl StreamError)"
| "parse_stream (Bytes n) s =
     (if length s < n then Inl StreamError else Inr (PBytes (take n s), drop n s))"
| "parse_stream (Padding n) s =
     (if length s < n then Inl StreamError else Inr (PNone, drop n s))"
| "parse_stream (Const v sc) s =
     (case parse_stream sc s of Inl e \<Rightarrow> Inl e
      | Inr (x, r) \<Rightarrow> if x = PInt v then Inr (x, r) else Inl ConstError)"
| "parse_stream (Enum sc mapping) s =
     (case parse_stream sc s of Inl e \<Rightarrow> Inl e
      | Inr (x, r) \<Rightarrow> (case x of PInt v \<Rightarrow> Inr (enum_decode mapping v, r) | _ \<Rightarrow> Inr (x, r)))"
| "parse_stream (Struct fs) s =
     (case parse_fields fs s of Inl e \<Rightarrow> Inl e | Inr (kvs, r) \<Rightarrow> Inr (Container kvs, r))"
| "parse_fields [] s = Inr ([], s)"
| "parse_fields ((name, sc) # fs) s =
     (case parse_stream sc s of Inl e \<Rightarrow> Inl e
      | Inr (x, r) \<Rightarrow>
          (case parse_fields fs r of Inl e \<Rightarrow> Inl e
           | Inr (kvs, r') \<Rightarrow> Inr ((name, x) # kvs, r')))"

text \<open>\<open>layout.parse(data)\<close>: parse from the start of the data; bytes left over are ignored.
  \<open>parse_field\<close> is \<open>layout.parse(data)\<close> followed by the attribute path to one field.\<close>

definition parse :: "subcon \<Rightarrow> byte list \<Rightarrow> error + pyval" where
  "parse sc data = (case parse_stream sc data of Inl e \<Rightarrow> Inl e | Inr (x, r) \<Rightarrow> Inr x)"

text \<open>Attribute access \<open>obj.name\<close> on a parsed value; a missing attribute raises.\<close>

fun getattr :: "pyval \<Rightarrow> string \<Rightarrow> error + pyval" where
  "getattr (Container kvs) name =
     (case map_of kvs name of None \<Rightarrow> Inl AttributeError | Some x \<Rightarrow> Inr x)"
| "getattr _ name = Inl AttributeError"

fun getpath :: "pyval \<Rightarrow> string list \<Rightarrow> error + pyval" where
  "getpath x [] = Inr x"
| "getpath x (name # names) =
     (case getattr x name of Inl e \<Rightarrow> Inl e | Inr y \<Rightarrow> getpath y names)"

definition parse_field :: "subcon \<Rightarrow> string list \<Rightarrow> byte list \<Rightarrow> error + pyval" where
  "parse_field layout path data = ebind (parse layout data) (\<lambda>parsed. getpath parsed path)"

definition product_ids :: "(string \<times> int) list" where
  "product_ids =
     [(''DIGIPLEX_DGP2_48_NE'', 0), (''DIGIPLEX_DGP2_72_NE'', 1), (''DIGIPLEX_DGP2_96_NE'', 2),
      (''DIGIPLEX_DGP2_112_NE'', 3), (''DIGIPLEX_DGP2_816_NE'', 4), (''DIGIPLEX_DGP2_248_NE'', 5),
      (''MAGELLAN_MG5000'', 2), (''MAGELLAN_MG5050'', 4), (''SPECTRA_SP4000'', 5),
      (''SPECTRA_SP5500'', 21), (''SPECTRA_SP6000'', 22), (''SPECTRA_SP7000'', 23),
      (''SPECTRA_SP65'', 24)]"

definition ProductIdEnum :: subcon where
  "ProductIdEnum = Enum Int8ub product_ids"

definition CommunicationSourceIDEnum :: subcon where
  "CommunicationSourceIDEnum = Enum Int8ub
     [(''BOOT_LOADER'', 0), (''PANEL_APP'', 1), (''NEware'', 2), (''IP100'', 4), (''Winload'', 5),
      (''WinloadApp'', 6), (''default'', 1)]"

definition InitiateCommunication :: subcon where
  "InitiateCommunication = Struct
     [(''fields'', Struct
        [(''po'', Struct [(''command'', Const 0x72 Int8ub)]),
         (''reserved_0'', Padding 34),
         (''user_id'', Int8ub)]),
      (''checksum'', Int8ub)]"

definition InitiateCommunicationResponse :: subcon where
  "InitiateCommunicationResponse = Struct
     [(''fields'', Struct
        [(''po'', Struct [(''command'', Const 0x72 Int8ub), (''result'', Const 0xFF Int8ub)]),
         (''reserved_0'', Bytes 4),
         (''product_id'', ProductIdEnum),
         (''firmware_version'', Struct
            [(''version'', Int8ub), (''revision'', Int8ub), (''minor'', Int8ub)]),
         (''panel_id'', Int16ub),
         (''pc_password'', Bytes 2),
         (''modem_speed'', Int8ub),
         (''reserved_1'', Bytes 14),
         (''source_id'', Int8ub),
         (''user_id'', Int8ub),
         (''receiver_line'', Bytes 4),
         (''reserved_2'', Bytes 1)]),
      (''checksum'', Int8ub)]"

definition InitializeCommunication_MGSP :: subcon where
  "InitializeCommunication_MGSP = Struct
     [(''fields'', Struct
        [(''po'', Struct [(''command'', Const 0x00 Int8ub)]),
         (''product_id'', ProductIdEnum),
         (''firmware_version'', Struct
            [(''version'', Int8ub), (''revision'', Int8ub), (''minor'', Int8ub)]),
         (''panel_id'', Int16ub),
         (''pc_password'', Bytes 2),
         (''reserved_0'', Bytes 3),
         (''source_id'', CommunicationSourceIDEnum),
         (''user_id'', Const 0x00 Int8ub),
         (''reserved_1'', Bytes 19)]),
      (''checksum'', Int8ub)]"

definition InitializeCommunicationResponse_MGSP :: subcon where
  "InitializeCommunicationResponse_MGSP = Struct
     [(''fields'', Struct
        [(''po'', Struct [(''command'', Int8ub)]),
         (''reserved_0'', Bytes 33),
         (''user_id'', Int8ub)]),
      (''checksum'', Int8ub)]"

definition PerformAction :: subcon where
  "PerformAction = Struct
     [(''fields'', Struct
        [(''po'', Struct [(''command'', Const 0x40 Int8ub)]),
         (''reserved_0'', Bytes 3),
         (''action'', Int8ub),
         (''argument'', Int8ub),
         (''reserved_1'', Bytes 27),
         (''source_id'', CommunicationSourceIDEnum),
         (''user_id'', Int8ub)]),
      (''checksum'', Int8ub)]"

definition PerformActionResponse :: subcon where
  "PerformActionResponse = Struct
     [(''fields'', Struct
        [(''po'', Struct [(''command'', Int8ub)]),
         (''reserved_0'', Bytes 33),
         (''user_id'', Int8ub)]),
      (''checksum'', Int8ub)]"

definition ReadEEPROM :: subcon where
  "ReadEEPROM = Struct
     [(''fields'', Struct
        [(''po'', Struct [(''command'', Const 0x50 Int8ub)]),
         (''reserved_0'', Bytes 1),
         (''address'', Int16ub),
         (''records'', Int8ub),
         (''reserved_1'', Bytes 28),
         (''source_id'', CommunicationSourceIDEnum),
         (''user_id'', Int8ub)]),
      (''checksum'', Int8ub)]"

definition ReadEEPROMResponse :: subcon where
  "ReadEEPROMResponse = Struct
     [(''fields'', Struct
        [(''po'', Struct [(''command'', Int8ub)]),
         (''reserved_0'', Bytes 1),
         (''address'', Int16ub),
         (''records'', Int8ub),
         (''data'', Bytes (32 - 5))]),
      (''checksum'', Int8ub)]"

definition LiveEvent :: subcon where
  "LiveEvent = Struct
     [(''fields'', Struct
        [(''po'', Struct [(''command'', Int8ub)]),
         (''reserved_0'', Bytes 1),
         (''event_group'', Int8ub),
         (''event_1'', Int8ub),
         (''event_2'', Int8ub),
         (''partition'', Int8ub),
         (''module_serial'', Bytes 4),
         (''label_type'', Int8ub),
         (''label'', Bytes 16),
         (''reserved_1'', Bytes 6),
         (''user_id'', Int8ub)]),
      (''checksum'', Int8ub)]"

section \<open>protocol.py: the generic parser\<close>

text \<open>The dictionary of \<open>get_parser_by_command\<close>, in source order.\<close>

definition parsers :: "(int \<times> subcon) list" where
  "parsers =
     [(0x72, InitiateCommunicationResponse),
      (0x00, InitializeCommunication_MGSP),
      (0x10, InitializeCommunicationResponse_MGSP),
      (0x70, InitializeCommunicationResponse_MGSP),
      (0x40, PerformAction),
      (0x50, ReadEEPROM)]"

definition get_parser_by_command :: "int \<Rightarrow> subcon option" where
  "get_parser_by_command command_byte =
     (if 0x40 \<le> command_byte \<and> command_byte \<le> 0x4F then Some PerformActionResponse
      else if 0x50 \<le> command_byte \<and> command_byte \<le> 0x5F then Some ReadEEPROMResponse
      else if 0xE0 \<le> command_byte \<and> command_byte \<le> 0xEF then Some LiveEvent
      else map_of parsers command_byte)"

text \<open>\<open>parse_message(data)\<close>: \<open>None\<close> for a short message, an unknown command or any parse error.\<close>

definition parse_message :: "byte list \<Rightarrow> pyval option" where
  "parse_message data =
     (if length data < 2 then None
      else let command_byte = uint (data ! 0) in
        (case get_parser_by_command command_byte of
           None \<Rightarrow> None
         | Some parser \<Rightarrow>
             (case parse parser data of Inl e \<Rightarrow> None | Inr parsed \<Rightarrow> Some parsed)))"

section \<open>protocol.py: builders\<close>

text \<open>
  \<open>data[i] = v\<close> on a bytearray: \<open>ValueError\<close> unless \<open>v\<close> is in \<open>range(0, 256)\<close>,
  \<open>IndexError\<close> unless \<open>i\<close> is an index of the array.
\<close>

definition setitem :: "byte list \<Rightarrow> nat \<Rightarrow> int \<Rightarrow> error + byte list" where
  "setitem data i v =
     (if \<not> (0 \<le> v \<and> v < 256) then Inl ValueError
      else if \<not> i < length data then Inl IndexError
      else Inr (data[i := word_of_int v]))"

definition bytearray :: "nat \<Rightarrow> byte list" where
  "bytearray n = replicate n 0"

definition build_initiate_communication :: "int \<Rightarrow> error + byte list" where
  "build_initiate_communication user_id =
     ebind (setitem (bytearray 37) 0 0x72) (\<lambda>data.
     ebind (setitem data 35 user_id) (\<lambda>data.
     setitem data 36 (calculate_checksum (take 36 data))))"

text \<open>
  \<open>data[7:9] = pc_password_bytes\<close> is a slice assignment: the two bytes at 7 and 8 are replaced
  by the whole argument, whatever its length.
\<close>

definition build_initialize_communication_mgsp ::
  "int \<Rightarrow> int \<times> int \<times> int \<Rightarrow> int \<Rightarrow> byte list \<Rightarrow> int \<Rightarrow> int \<Rightarrow> error + byte list" where
  "build_initialize_communication_mgsp product_id firmware_version panel_id pc_password_bytes
       source_id user_id =
     ebind (setitem (bytearray 37) 0 0x00) (\<lambda>data.
     ebind (setitem data 1 product_id) (\<lambda>data.
     ebind (setitem data 2 (fst firmware_version)) (\<lambda>data.
     ebind (setitem data 3 (fst (snd firmware_version))) (\<lambda>data.
     ebind (setitem data 4 (snd (snd firmware_version))) (\<lambda>data.
     ebind (setitem data 5 (drop_bit 8 panel_id AND 0xFF)) (\<lambda>data.
     ebind (setitem data 6 (panel_id AND 0xFF)) (\<lambda>data.
     ebind (Inr (take 7 data @ pc_password_bytes @ drop 9 data)) (\<lambda>data.
     ebind (setitem data 12 source_id) (\<lambda>data.
     ebind (setitem data 13 user_id) (\<lambda>data.
     ebind (setitem data 35 user_id) (\<lambda>data.
     setitem data 36 (calculate_checksum (take 36 data)))))))))))))"

definition build_perform_action :: "int \<Rightarrow> int \<Rightarrow> int \<Rightarrow> int \<Rightarrow> error + byte list" where
  "build_perform_action action argument source_id user_id =
     ebind (setitem (bytearray 37) 0 0x40) (\<lambda>data.
     ebind (setitem data 4 action) (\<lambda>data.
     ebind (setitem data 5 argument) (\<lambda>data.
     ebind (setitem data 33 source_id) (\<lambda>data.
     ebind (setitem data 34 user_id) (\<lambda>data.
     ebind (setitem data 35 user_id) (\<lambda>data.
     setitem data 36 (calculate_checksum (take 36 data))))))))"

definition build_read_eeprom :: "int \<Rightarrow> int \<Rightarrow> int \<Rightarrow> int \<Rightarrow> error + byte list" where
  "build_read_eeprom address records source_id user_id =
     ebind (setitem (bytearray 37) 0 0x50) (\<lambda>data.
     ebind (setitem data 2 (drop_bit 8 address AND 0xFF)) (\<lambda>data.
     ebind (setitem data 3 (address AND 0xFF)) (\<lambda>data.
     ebind (setitem data 4 records) (\<lambda>data.
     ebind (setitem data 33 source_id) (\<lambda>data.
     ebind (setitem data 34 user_id) (\<lambda>data.
     ebind (setitem data 35 user_id) (\<lambda>data.
     setitem data 36 (calculate_checksum (take 36 data)))))))))"

section \<open>commands.py: checksum validation\<close>

text \<open>\<open>validate_checksum(data)\<close>: the last byte against the checksum of all bytes before it.\<close>

definition validate_checksum :: "byte list \<Rightarrow> bool" where
  "validate_checksum data =
     (if length data < 2 then False
      else let received_checksum = uint (last data);
               calculated_checksum = calculate_checksum (butlast data)
           in received_checksum = calculated_checksum)"

section \<open>connection.py: the serial connection\<close>

text \<open>
  The serial port is an external collaborator. Its state is the open flag, the bytes waiting
  in its input buffer, the chunks of bytes that will still arrive on the line (one chunk is
  delivered each time the caller sleeps between two polls) and the log of everything written.
  A read of \<open>n\<close> bytes returns the bytes of the buffer that arrive before the port's timeout
  expires, at most \<open>n\<close> of them; timeouts themselves are not modelled.
\<close>

record connection =
  connected :: bool
  in_waiting :: "byte list"
  arriving :: "byte list list"
  sent :: "byte list list"

definition is_connected :: "connection \<Rightarrow> bool" where
  "is_connected c = connected c"

definition serial_read :: "nat \<Rightarrow> connection \<Rightarrow> byte list \<times> connection" where
  "serial_read n c = (take n (in_waiting c), c\<lparr>in_waiting := drop n (in_waiting c)\<rparr>)"

text \<open>\<open>time.sleep(0.01)\<close> between two polls: the next chunk reaches the input buffer.\<close>

definition sleep :: "connection \<Rightarrow> connection" where
  "sleep c =
     (case arriving c of [] \<Rightarrow> c
      | chunk # later \<Rightarrow> c\<lparr>in_waiting := in_waiting c @ chunk, arriving := later\<rparr>)"

text \<open>\<open>write(data)\<close> of the connection (\<open>write\<close> is a reserved word of the logic's syntax).\<close>

definition write_data :: "connection \<Rightarrow> byte list \<Rightarrow> (error + nat) \<times> connection" where
  "write_data c data =
     (if \<not> is_connected c then (Inl SerialException, c)
      else (Inr (length data), c\<lparr>sent := sent c @ [data]\<rparr>))"

text \<open>
  \<open>read_variable_length(max_length, initial_timeout)\<close>. The \<open>initial_timeout\<close> argument and the
  saving and restoring of the port's timeout around the first read have no counterpart here.
\<close>

definition read_variable_length :: "nat \<Rightarrow> connection \<Rightarrow> (error + byte list) \<times> connection" where
  "read_variable_length max_length c =
     (if \<not> is_connected c then (Inl SerialException, c)
      else
        let (first_byte, c1) = serial_read 1 c in
        if length first_byte = 0 then (Inr [], c1)
        else
          let message_length =
                (if unat (first_byte ! 0) > 4
                 then (if unat (first_byte ! 0) > max_length then max_length
                       else unat (first_byte ! 0))
                 else 37);
              remaining = message_length - 1;
              (rest, c2) = serial_read remaining c1
          in (Inr (first_byte @ rest), c2))"

definition available :: "connection \<Rightarrow> nat" where
  "available c = (if \<not> is_connected c then 0 else length (in_waiting c))"

definition flush_input :: "connection \<Rightarrow> connection" where
  "flush_input c = (if is_connected c then c\<lparr>in_waiting := []\<rparr> else c)"

section \<open>panel.py: the panel session\<close>

text \<open>
  \<open>panel_info\<close> is the dictionary filled by the handshake (empty before it, here \<open>None\<close>); its
  values are the objects the parser produced. \<open>config\<close> is the configuration dictionary, of
  which only \<open>pc_password\<close> is read.
\<close>

record panel_info =
  info_product_id :: pyval
  info_firmware_version :: "pyval \<times> pyval \<times> pyval"
  info_firmware_string :: string
  info_panel_id :: pyval
  info_pc_password :: pyval
  info_source_id :: pyval

record panel =
  connection :: connection
  config :: "string \<rightharpoonup> string"
  panel_info :: "panel_info option"
  authenticated :: bool

subsection \<open>Password encoding\<close>

text \<open>
  \<open>int(s, 16)\<close> of the Python library, on strings of code points below 256: white space on
  both sides is skipped, one sign is accepted, then an optional \<open>0x\<close> prefix (which may be
  followed by one underscore), then hexadecimal digits with single underscores between them;
  at least one character must be consumed by the digit scan and nothing but white space may
  follow.
\<close>

definition is_space :: "char \<Rightarrow> bool" where
  "is_space c = ((of_char c :: nat) \<in> {9, 10, 11, 12, 13, 32, 133, 160})"

definition hex_digit_value :: "char \<Rightarrow> int option" where
  "hex_digit_value c =
     (let n = (of_char c :: nat) in
      if 48 \<le> n \<and> n \<le> 57 then Some (int n - 48)
      else if 97 \<le> n \<and> n \<le> 102 then Some (int n - 87)
      else if 65 \<le> n \<and> n \<le> 70 then Some (int n - 55)
      else None)"

fun scan_digits :: "int \<Rightarrow> bool \<Rightarrow> string \<Rightarrow> (int \<times> string) option" where
  "scan_digits acc prev_underscore [] = (if prev_underscore then None else Some (acc, []))"
| "scan_digits acc prev_underscore (c # cs) =
     (if c = CHR ''_'' then (if prev_underscore then None else scan_digits acc True cs)
      else (case hex_digit_value c of
              Some d \<Rightarrow> scan_digits (acc * 16 + d) False cs
            | None \<Rightarrow> (if prev_underscore then None else Some (acc, c # cs))))"

definition int_base16 :: "string \<Rightarrow> error + int" where
  "int_base16 s =
     (let s1 = dropWhile is_space s;
          (sign, s2) = (case s1 of [] \<Rightarrow> (1, s1)
                        | c # r \<Rightarrow> if c = CHR ''+'' then (1, r)
                                   else if c = CHR ''-'' then (- 1, r) else (1, s1));
          s3 = (case s2 of
                  a # b # r \<Rightarrow>
                    if a = CHR ''0'' \<and> (b = CHR ''x'' \<or> b = CHR ''X'')
                    then (case r of [] \<Rightarrow> r | u # r' \<Rightarrow> if u = CHR ''_'' then r' else r)
                    else s2
                | _ \<Rightarrow> s2)
      in if (case s3 of [] \<Rightarrow> False | c # r \<Rightarrow> c = CHR ''_'') then Inl ValueError
         else (case scan_digits 0 False s3 of
                 None \<Rightarrow> Inl ValueError
               | Some (v, rest) \<Rightarrow>
                   if length rest = length s3 then Inl ValueError
                   else if dropWhile is_space rest \<noteq> [] then Inl ValueError
                   else Inr (sign * v)))"

text \<open>
  \<open>encode_password\<close>: the length check, then both conversions and the construction of the
  two-byte object inside one \<open>try\<close> whose handler turns every \<open>ValueError\<close> into the
  \<open>ValueError\<close> of the method.
\<close>

definition encode_password :: "string \<Rightarrow> error + byte list" where
  "encode_password password =
     (if length password \<noteq> 4 then Inl ValueError
      else (case int_base16 (take 2 password) of
              Inl e \<Rightarrow> Inl ValueError
            | Inr byte1 \<Rightarrow>
                (case int_base16 (take 2 (drop 2 password)) of
                   Inl e \<Rightarrow> Inl ValueError
                 | Inr byte2 \<Rightarrow>
                     if 0 \<le> byte1 \<and> byte1 < 256 \<and> 0 \<le> byte2 \<and> byte2 < 256
                     then Inr [word_of_int byte1, word_of_int byte2]
                     else Inl ValueError)))"

subsection \<open>Waiting for a response\<close>

text \<open>
  The loop of \<open>wait_for_response\<close> runs until the wall clock passes the timeout. The clock is
  abstracted to \<open>polls\<close>, the number of iterations that fit into the timeout; when they are
  used up the method returns \<open>None\<close>.
\<close>

fun wait_for_response ::
  "nat \<Rightarrow> int list \<Rightarrow> connection \<Rightarrow> (error + byte list option) \<times> connection" where
  "wait_for_response 0 expected_command c = (Inr None, c)"
| "wait_for_response (Suc polls) expected_command c =
     (if available c > 0 then
        (case read_variable_length 37 c of
           (Inl e, c1) \<Rightarrow> (Inl e, c1)
         | (Inr data, c1) \<Rightarrow>
             if length data > 0 \<and> uint (data ! 0) \<in> set expected_command then (Inr (Some data), c1)
             else wait_for_response polls expected_command (sleep c1))
      else wait_for_response polls expected_command (sleep c))"

definition send_command ::
  "nat \<Rightarrow> connection \<Rightarrow> byte list \<Rightarrow> int list option
     \<Rightarrow> (error + byte list option) \<times> connection" where
  "send_command polls c command_data expected_response =
     (case write_data c command_data of
        (Inl e, c1) \<Rightarrow> (Inl e, c1)
      | (Inr n, c1) \<Rightarrow>
          (case expected_response of
             None \<Rightarrow> (Inr None, c1)
           | Some expected \<Rightarrow> wait_for_response polls expected c1))"

subsection \<open>Handshake and authentication\<close>

text \<open>Decimal rendering of an integer, as an f-string prints it.\<close>

definition digit_char :: "nat \<Rightarrow> char" where
  "digit_char d = char_of (48 + d)"

function str_nat :: "nat \<Rightarrow> string" where
  "str_nat n = (if n < 10 then [digit_char n] else str_nat (n div 10) @ [digit_char (n mod 10)])"
  by pat_completeness auto
termination
  by (relation "measure id") auto

text \<open>
  \<open>str(x)\<close> for the values a format string receives here: integers and enumeration labels.
  The rendering of byte strings and containers is not modelled; no layout puts one into a
  formatted field.
\<close>

fun py_str :: "pyval \<Rightarrow> string" where
  "py_str (PInt i) = (if i < 0 then CHR ''-'' # str_nat (nat (- i)) else str_nat (nat i))"
| "py_str (EnumIntegerString name i) = name"
| "py_str PNone = ''None''"
| "py_str _ = []"

text \<open>The body of the \<open>try\<close> block of \<open>initiate_communication\<close>.\<close>

definition panel_info_of_response :: "byte list \<Rightarrow> error + panel_info" where
  "panel_info_of_response response =
     ebind (parse InitiateCommunicationResponse response) (\<lambda>parsed.
     ebind (getpath parsed [''fields'', ''product_id'']) (\<lambda>product_id.
     ebind (getpath parsed [''fields'', ''firmware_version'', ''version'']) (\<lambda>version.
     ebind (getpath parsed [''fields'', ''firmware_version'', ''revision'']) (\<lambda>revision.
     ebind (getpath parsed [''fields'', ''firmware_version'', ''minor'']) (\<lambda>minor.
     ebind (getpath parsed [''fields'', ''panel_id'']) (\<lambda>panel_id.
     ebind (getpath parsed [''fields'', ''pc_password'']) (\<lambda>pc_password.
     ebind (getpath parsed [''fields'', ''source_id'']) (\<lambda>source_id.
     Inr \<lparr>info_product_id = product_id,
          info_firmware_version = (version, revision, minor),
          info_firmware_string = py_str version @ ''.'' @ py_str revision @ ''.'' @ py_str minor,
          info_panel_id = panel_id,
          info_pc_password = pc_password,
          info_source_id = source_id\<rparr>))))))))"

definition initiate_communication :: "nat \<Rightarrow> panel \<Rightarrow> (error + panel_info option) \<times> panel" where
  "initiate_communication polls p =
     (let c0 = flush_input (connection p) in
      case build_initiate_communication 0x00 of
        Inl e \<Rightarrow> (Inl e, p\<lparr>connection := c0\<rparr>)
      | Inr cmd \<Rightarrow>
          (case write_data c0 cmd of
             (Inl e, c1) \<Rightarrow> (Inl e, p\<lparr>connection := c1\<rparr>)
           | (Inr n, c1) \<Rightarrow>
               (case wait_for_response polls [0x72] c1 of
                  (Inl e, c2) \<Rightarrow> (Inl e, p\<lparr>connection := c2\<rparr>)
                | (Inr None, c2) \<Rightarrow> (Inr None, p\<lparr>connection := c2\<rparr>)
                | (Inr (Some response), c2) \<Rightarrow>
                    (case panel_info_of_response response of
                       Inl e \<Rightarrow> (Inr None, p\<lparr>connection := c2\<rparr>)
                     | Inr info \<Rightarrow>
                         (Inr (Some info), p\<lparr>connection := c2, panel_info := Some info\<rparr>)))))"

text \<open>
  A bytearray element or an operand of \<open>>>\<close> must be an integer: an enumeration label is a
  string and raises \<open>TypeError\<close>. The builder receives the objects stored by the handshake;
  the conversion is made where they are passed, in the order the builder uses them.
\<close>

fun as_index :: "pyval \<Rightarrow> error + int" where
  "as_index (PInt i) = Inr i"
| "as_index _ = Inl TypeError"

definition initialize_communication :: "nat \<Rightarrow> panel \<Rightarrow> (error + bool) \<times> panel" where
  "initialize_communication polls p =
     (case panel_info p of
        None \<Rightarrow> (Inr False, p)
      | Some info \<Rightarrow>
          let pc_password_str = (case config p ''pc_password'' of None \<Rightarrow> ''0000'' | Some s \<Rightarrow> s) in
          (case encode_password pc_password_str of
             Inl e \<Rightarrow> (Inl e, p)
           | Inr pc_password_bytes \<Rightarrow>
               (case ebind (as_index (info_product_id info)) (\<lambda>product_id.
                     ebind (as_index (fst (info_firmware_version info))) (\<lambda>version.
                     ebind (as_index (fst (snd (info_firmware_version info)))) (\<lambda>revision.
                     ebind (as_index (snd (snd (info_firmware_version info)))) (\<lambda>minor.
                     ebind (as_index (info_panel_id info)) (\<lambda>panel_id.
                     build_initialize_communication_mgsp product_id (version, revision, minor)
                       panel_id pc_password_bytes 0x01 0x00))))) of
                  Inl e \<Rightarrow> (Inl e, p)
                | Inr cmd \<Rightarrow>
                    (case write_data (connection p) cmd of
                       (Inl e, c1) \<Rightarrow> (Inl e, p\<lparr>connection := c1\<rparr>)
                     | (Inr n, c1) \<Rightarrow>
                         (case wait_for_response polls [0x10, 0x70] c1 of
                            (Inl e, c2) \<Rightarrow> (Inl e, p\<lparr>connection := c2\<rparr>)
                          | (Inr None, c2) \<Rightarrow> (Inr False, p\<lparr>connection := c2\<rparr>)
                          | (Inr (Some response), c2) \<Rightarrow>
                              let result_code = uint (response ! 0) in
                              if result_code = 0x10
                              then (Inr True, p\<lparr>connection := c2, authenticated := True\<rparr>)
                              else (Inr False, p\<lparr>connection := c2\<rparr>))))))"

subsection \<open>Action tables (protocol.py)\<close>

definition PARTITION_ACTIONS :: "(string \<times> int) list" where
  "PARTITION_ACTIONS =
     [(''arm_stay'', 0x01), (''arm_sleep'', 0x02), (''arm'', 0x04), (''disarm'', 0x05),
      (''arm_stay_instant'', 0x06), (''arm_instant'', 0x07)]"

definition ZONE_ACTIONS :: "(string \<times> int) list" where
  "ZONE_ACTIONS = [(''bypass'', 0x10), (''clear_bypass'', 0x10)]"

definition PGM_ACTIONS :: "(string \<times> int) list" where
  "PGM_ACTIONS = [(''on'', 0x32), (''off'', 0x33), (''on_override'', 0x34), (''off_override'', 0x35)]"

subsection \<open>Commands\<close>

text \<open>
  The partition number is called \<open>part\<close> (\<open>partition\<close> is a function of the list library).
  The tail shared by \<open>arm_partition\<close>, \<open>disarm_partition\<close> and \<open>bypass_zone\<close>, written out in
  each of them in the source: send the frame, wait for a response in \<open>0x40..0x4F\<close>, and
  report success when a non-empty response starts with \<open>0x40\<close>. An exception raised while
  the frame is built or sent is not caught.
\<close>

definition perform_and_confirm ::
  "nat \<Rightarrow> panel \<Rightarrow> error + byte list \<Rightarrow> (error + bool) \<times> panel" where
  "perform_and_confirm polls p built =
     (case built of
        Inl e \<Rightarrow> (Inl e, p)
      | Inr cmd \<Rightarrow>
          (case send_command polls (connection p) cmd (Some [0x40..0x4F]) of
             (Inl e, c) \<Rightarrow> (Inl e, p\<lparr>connection := c\<rparr>)
           | (Inr None, c) \<Rightarrow> (Inr False, p\<lparr>connection := c\<rparr>)
           | (Inr (Some response), c) \<Rightarrow>
               if response \<noteq> [] then
                 (let result_code = uint (response ! 0) in
                  if result_code = 0x40 then (Inr True, p\<lparr>connection := c\<rparr>)
                  else (Inr False, p\<lparr>connection := c\<rparr>))
               else (Inr False, p\<lparr>connection := c\<rparr>)))"

definition arm_partition :: "nat \<Rightarrow> panel \<Rightarrow> int \<Rightarrow> string \<Rightarrow> (error + bool) \<times> panel" where
  "arm_partition polls p part mode =
     (if \<not> authenticated p then (Inr False, p)
      else (case map_of PARTITION_ACTIONS mode of
              None \<Rightarrow> (Inr False, p)
            | Some action_code \<Rightarrow>
                perform_and_confirm polls p
                  (build_perform_action action_code (part - 1) 0x01 0x00)))"

definition disarm_partition :: "nat \<Rightarrow> panel \<Rightarrow> int \<Rightarrow> (error + bool) \<times> panel" where
  "disarm_partition polls p part =
     (if \<not> authenticated p then (Inr False, p)
      else perform_and_confirm polls p
             (build_perform_action (the (map_of PARTITION_ACTIONS ''disarm'')) (part - 1)
                0x01 0x00))"

definition bypass_zone :: "nat \<Rightarrow> panel \<Rightarrow> int \<Rightarrow> (error + bool) \<times> panel" where
  "bypass_zone polls p zone =
     (if \<not> authenticated p then (Inr False, p)
      else perform_and_confirm polls p
             (build_perform_action (the (map_of ZONE_ACTIONS ''bypass'')) (zone - 1) 0x01 0x00))"

text \<open>\<open>read_status\<close>: the data field of the decoded response, \<open>None\<close> on timeout or parse error.\<close>

definition read_status :: "nat \<Rightarrow> panel \<Rightarrow> int \<Rightarrow> int \<Rightarrow> (error + pyval option) \<times> panel" where
  "read_status polls p address records =
     (if \<not> authenticated p then (Inr None, p)
      else (case build_read_eeprom address records 0x01 0x00 of
              Inl e \<Rightarrow> (Inl e, p)
            | Inr cmd \<Rightarrow>
                (case send_command polls (connection p) cmd (Some [0x50..0x5F]) of
                   (Inl e, c) \<Rightarrow> (Inl e, p\<lparr>connection := c\<rparr>)
                 | (Inr None, c) \<Rightarrow> (Inr None, p\<lparr>connection := c\<rparr>)
                 | (Inr (Some response), c) \<Rightarrow>
                     if response \<noteq> [] then
                       (case ebind (parse ReadEEPROMResponse response)
                               (\<lambda>parsed. getpath parsed [''fields'', ''data'']) of
                          Inl e \<Rightarrow> (Inr None, p\<lparr>connection := c\<rparr>)
                        | Inr data \<Rightarrow> (Inr (Some data), p\<lparr>connection := c\<rparr>))
                     else (Inr None, p\<lparr>connection := c\<rparr>))))"

subsection \<open>Live events\<close>

record event_info =
  event_command :: pyval
  event_group :: pyval
  event_1 :: pyval
  event_2 :: pyval
  event_partition :: pyval
  event_label_type :: pyval
  event_label :: string

text \<open>
  \<open>label.decode('ascii', errors='ignore').strip('\x00')\<close>: bytes above 127 are dropped, the
  others become characters, and NUL characters are removed from both ends.
\<close>

definition decode_label :: "pyval \<Rightarrow> error + string" where
  "decode_label x =
     (case x of
        PBytes bs \<Rightarrow>
          (let text = map (\<lambda>b. char_of (unat b)) (filter (\<lambda>b. unat b < 128) bs);
               nul = (\<lambda>ch. ch = char_of (0 :: nat))
           in Inr (rev (dropWhile nul (rev (dropWhile nul text)))))
      | _ \<Rightarrow> Inl AttributeError)"

text \<open>\<open>handle_live_event\<close>: every exception of the \<open>try\<close> block gives \<open>None\<close>.\<close>

definition handle_live_event :: "byte list \<Rightarrow> event_info option" where
  "handle_live_event event_data =
     (case ebind (parse LiveEvent event_data) (\<lambda>parsed.
           ebind (getpath parsed [''fields'', ''po'', ''command'']) (\<lambda>command.
           ebind (getpath parsed [''fields'', ''event_group'']) (\<lambda>egroup.
           ebind (getpath parsed [''fields'', ''event_1'']) (\<lambda>e1.
           ebind (getpath parsed [''fields'', ''event_2'']) (\<lambda>e2.
           ebind (getpath parsed [''fields'', ''partition'']) (\<lambda>partition.
           ebind (getpath parsed [''fields'', ''label_type'']) (\<lambda>label_type.
           ebind (getpath parsed [''fields'', ''label'']) (\<lambda>label_bytes.
           ebind (decode_label label_bytes) (\<lambda>label.
           Inr \<lparr>event_command = command, event_group = egroup, event_1 = e1, event_2 = e2,
                event_partition = partition, event_label_type = label_type,
                event_label = label\<rparr>))))))))) of
        Inl e \<Rightarrow> None
      | Inr event \<Rightarrow> Some event)"

text \<open>
  \<open>monitor_events\<close> is a generator around an endless polling loop. \<open>polls\<close> is the number of
  iterations made before the duration bound is reached or the consumer stops; the result is
  the list of events yielded, the exception that ended the loop (if any) and the connection.
\<close>

fun monitor_events :: "nat \<Rightarrow> connection \<Rightarrow> event_info list \<times> error option \<times> connection" where
  "monitor_events 0 c = ([], None, c)"
| "monitor_events (Suc polls) c =
     (if available c > 0 then
        (case read_variable_length 37 c of
           (Inl e, c1) \<Rightarrow> ([], Some e, c1)
         | (Inr data, c1) \<Rightarrow>
             if length data > 0 then
               (let command = uint (data ! 0) in
                if 0xE0 \<le> command \<and> command \<le> 0xEF then
                  (case handle_live_event data of
                     Some event \<Rightarrow>
                       (case monitor_events polls (sleep c1) of
                          (events, r) \<Rightarrow> (event # events, r))
                   | None \<Rightarrow> monitor_events polls (sleep c1))
                else monitor_events polls (sleep c1))
             else monitor_events polls (sleep c1))
      else monitor_events polls (sleep c))"

section \<open>Properties\<close>

text \<open>An integer that fits a byte, and a built frame that is 37 bytes long with its last byte
  the sum of the first 36 modulo 256.\<close>

definition in_byte_range :: "int \<Rightarrow> bool" where
  "in_byte_range v = (0 \<le> v \<and> v < 256)"

definition checksummed_frame :: "error + byte list \<Rightarrow> bool" where
  "checksummed_frame r =
     (case r of
        Inl e \<Rightarrow> False
      | Inr f \<Rightarrow> length f = 37 \<and> uint (f ! 36) = sum_list (map uint (take 36 f)) mod 256)"

text \<open>
  The identity the handshake stores for a response frame \<open>f\<close>, field by field with the byte
  offsets of the response layout.
\<close>

definition handshake_identity :: "byte list \<Rightarrow> panel_info" where
  "handshake_identity f =
     \<lparr>info_product_id = enum_decode product_ids (uint (f ! 6)),
      info_firmware_version = (PInt (uint (f ! 7)), PInt (uint (f ! 8)), PInt (uint (f ! 9))),
      info_firmware_string =
        py_str (PInt (uint (f ! 7))) @ ''.'' @ py_str (PInt (uint (f ! 8))) @ ''.''
          @ py_str (PInt (uint (f ! 9))),
      info_panel_id = PInt (uint (f ! 10) * 256 + uint (f ! 11)),
      info_pc_password = PBytes [f ! 12, f ! 13],
      info_source_id = PInt (uint (f ! 29))\<rparr>"

text \<open>Concrete inputs: an open connection, a session on it, and a handshake response.\<close>

definition example_connection :: connection where
  "example_connection = \<lparr>connected = True, in_waiting = [], arriving = [], sent = []\<rparr>"

definition example_panel :: panel where
  "example_panel = \<lparr>connection = example_connection, config = Map.empty, panel_info = None,
     authenticated = True\<rparr>"

definition example_response :: "byte list" where
  "example_response =
     [0x72, 0xFF, 0, 0, 0, 0, 4, 4, 2, 1, 0x04, 0xD2, 0xAB, 0xCD, 9, 0, 0, 0, 0, 0, 0, 0, 0, 0,
      0, 0, 0, 0xAA, 0xBB, 5, 7, 1, 2, 3, 4, 0, 0x11]"

text \<open>A valid PerformAction frame (action \<open>0x01\<close>, argument 2), as the arm command sends it.\<close>

definition example_frame :: "byte list" where
  "example_frame =
     [0x40, 0, 0, 0, 1, 2, 0, 0, 0, 0, 0, 0, 0, 0, 0, 0, 0, 0, 0, 0, 0, 0, 0, 0, 0, 0, 0, 0, 0, 0,
      0, 0, 0, 1, 0, 0, 0x44]"



text \<open>
  The number of bytes a layout consumes, the bytes of an ASCII text, the event record of the
  ``Front Door'' frame and a concrete frame of that kind.
\<close>

fun layout_size :: "subcon \<Rightarrow> nat"
  and fields_size :: "(string \<times> subcon) list \<Rightarrow> nat" where
  "layout_size Int8ub = 1"
| "layout_size Int16ub = 2"
| "layout_size (Bytes n) = n"
| "layout_size (Padding n) = n"
| "layout_size (Const v sc) = layout_size sc"
| "layout_size (Enum sc mapping) = layout_size sc"
| "layout_size (Struct fs) = fields_size fs"
| "fields_size [] = 0"
| "fields_size ((name, sc) # fs) = layout_size sc + fields_size fs"

definition ascii :: "string \<Rightarrow> byte list" where
  "ascii s = map (\<lambda>ch. of_nat (of_char ch)) s"

definition front_door_event :: "byte list \<Rightarrow> event_info" where
  "front_door_event frame =
     \<lparr>event_command = PInt 0xE1, event_group = PInt (uint (frame ! 2)),
      event_1 = PInt (uint (frame ! 3)), event_2 = PInt (uint (frame ! 4)),
      event_partition = PInt 2, event_label_type = PInt (uint (frame ! 10)),
      event_label = ''Front Door''\<rparr>"

definition example_event :: "byte list" where
  "example_event =
     [0xE1, 0, 1, 2, 3, 2, 9, 9, 9, 9, 1, 0x46, 0x72, 0x6F, 0x6E, 0x74, 0x20, 0x44, 0x6F, 0x6F,
      0x72, 0, 0, 0, 0, 0, 0, 0, 0, 0, 0, 0, 0, 0, 0, 0, 0]"

text \<open>
  The field of a message as the generic parser decodes it (\<open>None\<close> when the parser returns
  \<open>None\<close>, an \<open>AttributeError\<close> when the decoded message has no such field), and concrete requests: the
  handshake request, a memory-read request, and a session that has been identified (by a
  panel with the unlisted product code 7) and is configured with the password \<open>+1+2\<close>,
  with the authentication frame it sends.
\<close>

definition decoded_field :: "byte list \<Rightarrow> string list \<Rightarrow> (error + pyval) option" where
  "decoded_field data path =
     (case parse_message data of None \<Rightarrow> None | Some parsed \<Rightarrow> Some (getpath parsed path))"

definition initiate_request :: "byte list" where
  "initiate_request =
     [0x72, 0, 0, 0, 0, 0, 0, 0, 0, 0, 0, 0, 0, 0, 0, 0, 0, 0, 0, 0, 0, 0, 0, 0, 0, 0, 0, 0, 0, 0,
      0, 0, 0, 0, 0, 0, 0x72]"

definition eeprom_request :: "byte list" where
  "eeprom_request =
     [0x50, 0, 0x12, 0x34, 3, 0, 0, 0, 0, 0, 0, 0, 0, 0, 0, 0, 0, 0, 0, 0, 0, 0, 0, 0, 0, 0, 0, 0,
      0, 0, 0, 0, 0, 1, 0, 0, 0x9A]"

definition identified_panel :: panel where
  "identified_panel =
     \<lparr>connection = example_connection,
      config = [''pc_password'' \<mapsto> ''+1+2''],
      panel_info = Some \<lparr>info_product_id = PInt 7,
                         info_firmware_version = (PInt 4, PInt 2, PInt 1),
                         info_firmware_string = ''4.2.1'',
                         info_panel_id = PInt 1234,
                         info_pc_password = PBytes [0xAB, 0xCD],
                         info_source_id = PInt 5\<rparr>,
      authenticated = False\<rparr>"

definition authentication_frame :: "byte list" where
  "authentication_frame =
     [0x00, 7, 4, 2, 1, 0x04, 0xD2, 0x01, 0x02, 0, 0, 0, 1, 0, 0, 0, 0, 0, 0, 0, 0, 0, 0, 0, 0, 0,
      0, 0, 0, 0, 0, 0, 0, 0, 0, 0, 0xE8]"

section \<open>Facts about bytes and the builders\<close>

lemma calculate_checksum_range: "0 \<le> calculate_checksum d \<and> calculate_checksum d < 256"
  by (simp add: calculate_checksum_def)

lemma setitem_Inr:
  "0 \<le> v \<Longrightarrow> v < 256 \<Longrightarrow> i < length d \<Longrightarrow> setitem d i v = Inr (d[i := word_of_int v])"
  by (simp add: setitem_def)

lemma uint_byte_of_int: "0 \<le> v \<Longrightarrow> v < 256 \<Longrightarrow> uint (word_of_int v :: byte) = v"
  by (simp add: uint_word_of_int_eq take_bit_eq_mod)

lemma and_255_range: "0 \<le> (x::int) AND 0xFF \<and> x AND 0xFF < 256"
proof -
  have "x AND mask 8 = x mod 2 ^ 8"
    by (simp only: take_bit_eq_mask [symmetric] take_bit_eq_mod)
  then have "x AND 0xFF = x mod 256"
    by (simp add: mask_eq_exp_minus_1)
  then show ?thesis by simp
qed

lemma close_frame:
  assumes "length d = 37"
  shows "\<exists>f. setitem d 36 (calculate_checksum (take 36 d)) = Inr f \<and> length f = 37
           \<and> uint (f ! 36) = sum_list (map uint (take 36 f)) mod 256"
proof -
  let ?c = "calculate_checksum (take 36 d)"
  have r: "0 \<le> ?c" "?c < 256"
    using calculate_checksum_range by simp_all
  have "setitem d 36 ?c = Inr (d[36 := word_of_int ?c])"
    using r assms by (simp add: setitem_Inr)
  moreover have "uint ((d[36 := word_of_int ?c]) ! 36) = ?c"
    using r assms by (simp add: uint_byte_of_int)
  moreover have "take 36 (d[36 := word_of_int ?c]) = take 36 d"
    by simp
  ultimately show ?thesis
    using assms by (simp add: calculate_checksum_def)
qed

lemma checksummed_close:
  "length d = 37 \<Longrightarrow> checksummed_frame (setitem d 36 (calculate_checksum (take 36 d)))"
  using close_frame [of d] by (auto simp: checksummed_frame_def)

lemma initiate_communication_frame:
  "in_byte_range user_id \<Longrightarrow> checksummed_frame (build_initiate_communication user_id)"
  by (simp add: build_initiate_communication_def in_byte_range_def ebind_def setitem_Inr
      bytearray_def checksummed_close)

lemma perform_action_frame:
  "in_byte_range action \<Longrightarrow> in_byte_range argument \<Longrightarrow> in_byte_range source_id
   \<Longrightarrow> in_byte_range user_id
   \<Longrightarrow> checksummed_frame (build_perform_action action argument source_id user_id)"
  by (simp add: build_perform_action_def in_byte_range_def ebind_def setitem_Inr
      bytearray_def checksummed_close)

lemma read_eeprom_frame:
  "in_byte_range records \<Longrightarrow> in_byte_range source_id \<Longrightarrow> in_byte_range user_id
   \<Longrightarrow> checksummed_frame (build_read_eeprom address records source_id user_id)"
  using and_255_range [of address] and_255_range [of "drop_bit 8 address"]
  by (simp add: build_read_eeprom_def in_byte_range_def ebind_def setitem_Inr
      bytearray_def checksummed_close)

lemma initialize_communication_mgsp_frame:
  "in_byte_range product_id \<Longrightarrow> in_byte_range version \<Longrightarrow> in_byte_range revision
   \<Longrightarrow> in_byte_range minor \<Longrightarrow> length pc_password_bytes = 2 \<Longrightarrow> in_byte_range source_id
   \<Longrightarrow> in_byte_range user_id
   \<Longrightarrow> checksummed_frame (build_initialize_communication_mgsp product_id
         (version, revision, minor) panel_id pc_password_bytes source_id user_id)"
  using and_255_range [of panel_id] and_255_range [of "drop_bit 8 panel_id"]
  by (simp add: build_initialize_communication_mgsp_def in_byte_range_def ebind_def
      setitem_Inr bytearray_def checksummed_close)

section \<open>Facts about the connection and the commands\<close>

lemma sent_sleep [simp]: "sent (sleep c) = sent c"
  by (simp add: sleep_def split: list.splits)

lemma sent_read_variable_length [simp]: "sent (snd (read_variable_length m c)) = sent c"
  by (simp add: read_variable_length_def Let_def serial_read_def split: prod.splits)

lemma sent_wait_for_response [simp]: "sent (snd (wait_for_response polls expected c)) = sent c"
proof (induction polls arbitrary: c)
  case 0
  then show ?case by simp
next
  case (Suc polls)
  show ?case
  proof (cases "available c > 0")
    case False
    then show ?thesis using Suc.IH [of "sleep c"] by simp
  next
    case True
    obtain r c1 where rv: "read_variable_length 37 c = (r, c1)"
      by (cases "read_variable_length 37 c")
    then have s1: "sent c1 = sent c"
      using sent_read_variable_length [of 37 c] by simp
    show ?thesis
    proof (cases r)
      case (Inl e)
      then show ?thesis using True rv s1 by simp
    next
      case (Inr data)
      then show ?thesis using True rv s1 Suc.IH [of "sleep c1"] by simp
    qed
  qed
qed

lemma wait_for_response_Some:
  "wait_for_response polls expected c = (Inr (Some response), c') \<Longrightarrow>
     response \<noteq> [] \<and> uint (response ! 0) \<in> set expected"
proof (induction polls arbitrary: c)
  case 0
  then show ?case by simp
next
  case (Suc polls)
  show ?case
  proof (cases "available c > 0")
    case False
    then show ?thesis using Suc.IH [of "sleep c"] Suc.prems by simp
  next
    case True
    obtain r c1 where rv: "read_variable_length 37 c = (r, c1)"
      by (cases "read_variable_length 37 c")
    show ?thesis
    proof (cases r)
      case (Inl e)
      then show ?thesis using True rv Suc.prems by simp
    next
      case (Inr data)
      then show ?thesis using True rv Suc.prems Suc.IH [of "sleep c1"]
        by (auto split: if_splits)
    qed
  qed
qed

lemma partition_action_code_range:
  "map_of PARTITION_ACTIONS mode = Some code \<Longrightarrow> 0 \<le> code \<and> code < 256"
  by (auto simp: PARTITION_ACTIONS_def split: if_splits)

lemma build_perform_action_Inr:
  assumes "0 \<le> action" "action < 256" "0 \<le> argument" "argument < 256"
  shows "\<exists>frame. build_perform_action action argument 0x01 0x00 = Inr frame \<and> length frame = 37
           \<and> uint (frame ! 0) = 0x40 \<and> uint (frame ! 4) = action \<and> uint (frame ! 5) = argument"
proof -
  let ?d = "(bytearray 37)[0 := 0x40, 4 := word_of_int action, 5 := word_of_int argument,
              33 := 1, 34 := 0, 35 := 0]"
  let ?f = "?d[36 := word_of_int (calculate_checksum (take 36 ?d))]"
  have len: "length ?d = 37"
    by (simp add: bytearray_def)
  have r: "0 \<le> calculate_checksum (take 36 ?d)" "calculate_checksum (take 36 ?d) < 256"
    using calculate_checksum_range by simp_all
  have "build_perform_action action argument 0x01 0x00 = Inr ?f"
    using assms r by (simp add: build_perform_action_def ebind_def setitem_Inr bytearray_def)
  moreover have "length ?f = 37"
    using len by simp
  moreover have "uint (?f ! 0) = 0x40"
    by (simp add: bytearray_def)
  moreover have "uint (?f ! 4) = action"
    using assms by (simp add: bytearray_def uint_byte_of_int)
  moreover have "uint (?f ! 5) = argument"
    using assms by (simp add: bytearray_def uint_byte_of_int)
  ultimately show ?thesis by blast
qed

lemma build_perform_action_ValueError:
  assumes "0 \<le> action" "action < 256" "argument < 0 \<or> 256 \<le> argument"
  shows "build_perform_action action argument source_id user_id = Inl ValueError"
  using assms by (auto simp: build_perform_action_def ebind_def setitem_def bytearray_def)

lemma perform_and_confirm_Inl: "perform_and_confirm polls p (Inl e) = (Inl e, p)"
  by (simp add: perform_and_confirm_def)

lemma perform_and_confirm_sent:
  assumes "is_connected (connection p)"
  shows "sent (connection (snd (perform_and_confirm polls p (Inr cmd))))
           = sent (connection p) @ [cmd]"
proof -
  let ?c1 = "(connection p)\<lparr>sent := sent (connection p) @ [cmd]\<rparr>"
  obtain r c2 where w: "wait_for_response polls [0x40..0x4F] ?c1 = (r, c2)"
    by (cases "wait_for_response polls [0x40..0x4F] ?c1")
  then have "sent c2 = sent (connection p) @ [cmd]"
    using sent_wait_for_response [of polls "[0x40..0x4F]" ?c1] by simp
  then show ?thesis
    using assms w
    by (simp add: perform_and_confirm_def send_command_def write_data_def Let_def
        split: sum.splits option.splits)
qed

section \<open>Facts about 37-byte frames\<close>

lemma upt37: "[0..<37] = [0, 1, 2, 3, 4, 5, 6, 7, 8, 9, 10, 11, 12, 13, 14, 15, 16, 17, 18, 19, 20, 21, 22, 23, 24,
    25, 26, 27, 28, 29, 30, 31, 32, 33, 34, 35, 36]"
  by code_simp

lemma expand37:
  "length (xs::'a list) = 37 \<Longrightarrow> xs = [xs ! 0, xs ! 1, xs ! 2, xs ! 3, xs ! 4, xs ! 5, xs ! 6, xs ! 7, xs ! 8, xs ! 9, xs ! 10, xs
    ! 11, xs ! 12, xs ! 13, xs ! 14, xs ! 15, xs ! 16, xs ! 17, xs ! 18, xs ! 19, xs ! 20, xs !
    21, xs ! 22, xs ! 23, xs ! 24, xs ! 25, xs ! 26, xs ! 27, xs ! 28, xs ! 29, xs ! 30, xs !
    31, xs ! 32, xs ! 33, xs ! 34, xs ! 35, xs ! 36]"
proof -
  assume len: "length xs = 37"
  have "xs = map ((!) xs) [0..<37]"
    using map_nth [of xs] len by simp
  then show ?thesis
    unfolding upt37 by simp
qed

lemma list37:
  assumes "length (xs::'a list) = 37"
  obtains b0 b1 b2 b3 b4 b5 b6 b7 b8 b9 b10 b11 b12 b13 b14 b15 b16 b17 b18 b19 b20 b21 b22 b23 b24
    b25 b26 b27 b28 b29 b30 b31 b32 b33 b34 b35 b36
  where "xs = [b0, b1, b2, b3, b4, b5, b6, b7, b8, b9, b10, b11, b12, b13, b14, b15, b16, b17, b18, b19,
    b20, b21, b22, b23, b24, b25, b26, b27, b28, b29, b30, b31, b32, b33, b34, b35, b36]"
  by (rule that [OF expand37 [OF assms]])

lemma read_whole_frame:
  assumes "is_connected c" and "in_waiting c = f" and "length f = 37" and "37 \<le> unat (f ! 0)"
  shows "read_variable_length 37 c = (Inr f, c\<lparr>in_waiting := []\<rparr>)"
proof -
  obtain b rest where f: "f = b # rest" "length rest = 36"
    using assms(3) by (cases f) simp_all
  show ?thesis
    using assms f by (simp add: read_variable_length_def serial_read_def Let_def min_def)
qed

lemma panel_info_of_handshake_response:
  assumes "length f = 37" and "f ! 0 = 0x72" and "f ! 1 = 0xFF"
  shows "panel_info_of_response f = Inr (handshake_identity f)"
proof -
  from assms(1) obtain b0 b1 b2 b3 b4 b5 b6 b7 b8 b9 b10 b11 b12 b13 b14 b15 b16 b17 b18 b19 b20 b21 b22 b23 b24
    b25 b26 b27 b28 b29 b30 b31 b32 b33 b34 b35 b36
    where f: "f = [b0, b1, b2, b3, b4, b5, b6, b7, b8, b9, b10, b11, b12, b13, b14, b15, b16, b17, b18, b19,
    b20, b21, b22, b23, b24, b25, b26, b27, b28, b29, b30, b31, b32, b33, b34, b35, b36]"
    by (rule list37)
  from assms(2,3) have b: "b0 = 0x72" "b1 = 0xFF"
    by (simp_all add: f)
  show ?thesis
    by (simp add: f b panel_info_of_response_def InitiateCommunicationResponse_def ebind_def
        parse_def ProductIdEnum_def handshake_identity_def del: py_str.simps)
qed

lemma handshake_response_fields:
  assumes "length f = 37" and "f ! 0 = 0x72" and "f ! 1 = 0xFF"
  shows "parse_field InitiateCommunicationResponse [''fields'', ''product_id''] f
           = Inr (enum_decode product_ids (uint (f ! 6)))"
    and "parse_field InitiateCommunicationResponse [''fields'', ''firmware_version'', ''version''] f
           = Inr (PInt (uint (f ! 7)))"
    and "parse_field InitiateCommunicationResponse [''fields'', ''firmware_version'', ''revision''] f
           = Inr (PInt (uint (f ! 8)))"
    and "parse_field InitiateCommunicationResponse [''fields'', ''firmware_version'', ''minor''] f
           = Inr (PInt (uint (f ! 9)))"
    and "parse_field InitiateCommunicationResponse [''fields'', ''panel_id''] f
           = Inr (PInt (uint (f ! 10) * 256 + uint (f ! 11)))"
    and "parse_field InitiateCommunicationResponse [''fields'', ''pc_password''] f
           = Inr (PBytes [f ! 12, f ! 13])"
    and "parse_field InitiateCommunicationResponse [''fields'', ''source_id''] f
           = Inr (PInt (uint (f ! 29)))"
    and "parse_field InitiateCommunicationResponse [''fields'', ''user_id''] f
           = Inr (PInt (uint (f ! 30)))"
proof -
  from assms(1) obtain b0 b1 b2 b3 b4 b5 b6 b7 b8 b9 b10 b11 b12 b13 b14 b15 b16 b17 b18 b19 b20 b21 b22 b23 b24
    b25 b26 b27 b28 b29 b30 b31 b32 b33 b34 b35 b36
    where f: "f = [b0, b1, b2, b3, b4, b5, b6, b7, b8, b9, b10, b11, b12, b13, b14, b15, b16, b17, b18, b19,
    b20, b21, b22, b23, b24, b25, b26, b27, b28, b29, b30, b31, b32, b33, b34, b35, b36]"
    by (rule list37)
  from assms(2,3) have b: "b0 = 0x72" "b1 = 0xFF"
    by (simp_all add: f)
  note defs = f b parse_field_def InitiateCommunicationResponse_def ebind_def parse_def
    ProductIdEnum_def
  show "parse_field InitiateCommunicationResponse [''fields'', ''product_id''] f
           = Inr (enum_decode product_ids (uint (f ! 6)))"
    by (simp add: defs)
  show "parse_field InitiateCommunicationResponse [''fields'', ''firmware_version'', ''version''] f
           = Inr (PInt (uint (f ! 7)))"
    by (simp add: defs)
  show "parse_field InitiateCommunicationResponse [''fields'', ''firmware_version'', ''revision''] f
           = Inr (PInt (uint (f ! 8)))"
    by (simp add: defs)
  show "parse_field InitiateCommunicationResponse [''fields'', ''firmware_version'', ''minor''] f
           = Inr (PInt (uint (f ! 9)))"
    by (simp add: defs)
  show "parse_field InitiateCommunicationResponse [''fields'', ''panel_id''] f
           = Inr (PInt (uint (f ! 10) * 256 + uint (f ! 11)))"
    by (simp add: defs)
  show "parse_field InitiateCommunicationResponse [''fields'', ''pc_password''] f
           = Inr (PBytes [f ! 12, f ! 13])"
    by (simp add: defs)
  show "parse_field InitiateCommunicationResponse [''fields'', ''source_id''] f
           = Inr (PInt (uint (f ! 29)))"
    by (simp add: defs)
  show "parse_field InitiateCommunicationResponse [''fields'', ''user_id''] f
           = Inr (PInt (uint (f ! 30)))"
    by (simp add: defs)
qed

lemma initiate_communication_identifies:
  assumes "is_connected (connection p)" and "arriving (connection p) = f # later"
    and "length f = 37" and "f ! 0 = 0x72" and "f ! 1 = 0xFF"
  shows "fst (initiate_communication (Suc (Suc polls)) p) = Inr (Some (handshake_identity f))
       \<and> panel_info (snd (initiate_communication (Suc (Suc polls)) p))
           = Some (handshake_identity f)"
proof -
  obtain cmd where cmd: "build_initiate_communication 0 = Inr cmd"
    using initiate_communication_frame [of 0]
    by (auto simp: checksummed_frame_def in_byte_range_def split: sum.splits)
  let ?c1 = "(connection p)\<lparr>in_waiting := [], sent := sent (connection p) @ [cmd]\<rparr>"
  let ?c2 = "?c1\<lparr>in_waiting := f, arriving := later\<rparr>"
  have s: "sleep ?c1 = ?c2"
    using assms(2) by (simp add: sleep_def)
  have c2: "is_connected ?c2" "in_waiting ?c2 = f"
    using assms(1) by (simp_all add: is_connected_def)
  have "37 \<le> unat (f ! 0)"
    using assms(4) by simp
  from read_whole_frame [OF c2 assms(3) this]
  have r: "read_variable_length 37 ?c2 = (Inr f, ?c2\<lparr>in_waiting := []\<rparr>)" .
  have a1: "available ?c1 = 0"
    by (simp add: available_def)
  have a2: "available ?c2 > 0"
    using assms(1,3) by (simp add: available_def is_connected_def)
  have w: "wait_for_response (Suc (Suc polls)) [0x72] ?c1
             = (Inr (Some f), ?c2\<lparr>in_waiting := []\<rparr>)"
    using a1 a2 r s assms(3,4) by simp
  show ?thesis
    using assms(1) cmd w panel_info_of_handshake_response [OF assms(3,4,5)]
    by (simp add: initiate_communication_def flush_input_def write_data_def is_connected_def)
qed





section \<open>Facts about checksum validation\<close>

lemma sum_list_uint_update:
  "i < length xs \<Longrightarrow>
     sum_list (map uint (xs[i := v])) = sum_list (map uint xs) - uint (xs ! i) + uint (v :: byte)"
proof (induction xs arbitrary: i)
  case Nil
  then show ?case by simp
next
  case (Cons x xs)
  then show ?case by (cases i) simp_all
qed

lemma int_diff_mod_256:
  assumes "(s - a + b) mod 256 = s mod (256::int)" and "0 \<le> a" "a < 256" "0 \<le> b" "b < 256"
  shows "a = b"
proof -
  have "(s - a + b - s) mod 256 = 0"
    using assms(1) by (metis mod_diff_cong cancel_comm_monoid_add_class.diff_cancel mod_0)
  then have "(b - a) mod 256 = 0"
    by (simp add: algebra_simps)
  then have "256 dvd (b - a)"
    by (simp add: dvd_eq_mod_eq_0)
  then obtain k where k: "b - a = 256 * k" ..
  have "- 256 < b - a" "b - a < 256" using assms(2-5) by linarith+
  then have "k = 0" using k by linarith
  then show ?thesis using k by simp
qed

lemma validate_checksum_iff:
  "validate_checksum data \<longleftrightarrow>
     2 \<le> length data \<and> uint (last data) = sum_list (map uint (butlast data)) mod 256"
  by (auto simp: validate_checksum_def calculate_checksum_def Let_def)

lemma mutation_detected:
  assumes "length f = 37" and "validate_checksum f" and "i < 36" and "v \<noteq> f ! i"
  shows "\<not> validate_checksum (f[i := v])"
proof
  assume bad: "validate_checksum (f[i := v])"
  have ne: "f \<noteq> []" using assms(1) by auto
  have l: "last (f[i := v]) = last f"
    using assms(1,3) ne by (simp add: last_list_update)
  have b: "butlast (f[i := v]) = (butlast f)[i := v]"
    using assms(1,3) by (simp add: butlast_list_update)
  have n: "butlast f ! i = f ! i" "i < length (butlast f)"
    using assms(1,3) by (simp_all add: nth_butlast)
  let ?s = "sum_list (map uint (butlast f))"
  from assms(2) have v1: "uint (last f) = ?s mod 256"
    by (simp add: validate_checksum_iff)
  from bad have "uint (last (f[i := v])) = sum_list (map uint (butlast (f[i := v]))) mod 256"
    by (simp only: validate_checksum_iff)
  then have "uint (last f) = (?s - uint (f ! i) + uint v) mod 256"
    using sum_list_uint_update [OF n(2), of v] n(1) by (simp only: l b)
  with v1 have eq: "(?s - uint (f ! i) + uint v) mod 256 = ?s mod 256"
    by (simp only:)
  have r: "uint (f ! i) < 256" "uint v < 256"
    using uint_lt2p [of "f ! i"] uint_lt2p [of v] by simp_all
  have z: "0 \<le> uint (f ! i)" "0 \<le> uint v"
    by simp_all
  have "uint (f ! i) = uint v"
    by (rule int_diff_mod_256 [OF eq z(1) r(1) z(2) r(2)])
  then have "f ! i = v"
    by (rule word_uint_eqI)
  with assms(4) show False by simp
qed

lemma parse_message_ignores_checksum_list:
  "parse_message [b0, b1, b2, b3, b4, b5, b6, b7, b8, b9, b10, b11, b12, b13, b14, b15, b16, b17, b18, b19, b20, b21, b22, b23, b24, b25, b26, b27, b28, b29, b30, b31, b32, b33, b34, b35, c] = None \<longleftrightarrow> parse_message [b0, b1, b2, b3, b4, b5, b6, b7, b8, b9, b10, b11, b12, b13, b14, b15, b16, b17, b18, b19, b20, b21, b22, b23, b24, b25, b26, b27, b28, b29, b30, b31, b32, b33, b34, b35, c'] = None"
  by (simp add: parse_message_def get_parser_by_command_def parsers_def parse_def
      PerformActionResponse_def ReadEEPROMResponse_def LiveEvent_def PerformAction_def ReadEEPROM_def
      InitiateCommunicationResponse_def InitializeCommunication_MGSP_def
      InitializeCommunicationResponse_MGSP_def ProductIdEnum_def CommunicationSourceIDEnum_def Let_def)

lemma parse_message_ignores_checksum:
  assumes "length f = 37"
  shows "parse_message (f[36 := c]) = None \<longleftrightarrow> parse_message f = None"
proof -
  from assms obtain b0 b1 b2 b3 b4 b5 b6 b7 b8 b9 b10 b11 b12 b13 b14 b15 b16 b17 b18 b19 b20 b21 b22 b23 b24 b25 b26 b27 b28 b29 b30 b31 b32 b33 b34 b35 b36
    where f: "f = [b0, b1, b2, b3, b4, b5, b6, b7, b8, b9, b10, b11, b12, b13, b14, b15, b16, b17, b18, b19, b20, b21, b22, b23, b24, b25, b26, b27, b28, b29, b30, b31, b32, b33, b34, b35, b36]"
    by (rule list37)
  have u: "f[36 := c] = [b0, b1, b2, b3, b4, b5, b6, b7, b8, b9, b10, b11, b12, b13, b14, b15, b16, b17, b18, b19, b20, b21, b22, b23, b24, b25, b26, b27, b28, b29, b30, b31, b32, b33, b34, b35, c]"
    unfolding f by (simp add: numeral_eq_Suc)
  show ?thesis
    unfolding u unfolding f by (rule parse_message_ignores_checksum_list)
qed

lemma example_frame_valid: "validate_checksum example_frame"
  by (simp add: example_frame_def validate_checksum_def calculate_checksum_def)

lemma example_frame_mutated_invalid: "\<not> validate_checksum (example_frame[5 := 3])"
  by (simp add: example_frame_def validate_checksum_def calculate_checksum_def)

lemma example_frame_mutated_decodes: "parse_message (example_frame[5 := 3]) \<noteq> None"
  by code_simp

section \<open>Facts about live events\<close>

lemma parse_stream_consumes:
  "parse_stream sc s = Inr (x, r) \<Longrightarrow> length s = layout_size sc + length r"
  "parse_fields fs s = Inr (kvs, r) \<Longrightarrow> length s = fields_size fs + length r"
proof (induction sc s and fs s arbitrary: x r and kvs r rule: parse_stream_parse_fields.induct)
  case (1 s)
  then show ?case by (auto split: list.splits)
next
  case (2 s)
  then show ?case by (auto split: list.splits)
next
  case (3 n s)
  then show ?case by (auto split: if_splits)
next
  case (4 n s)
  then show ?case by (auto split: if_splits)
next
  case (5 v sc s)
  then show ?case by (auto split: sum.splits if_splits)
next
  case (6 sc mapping s)
  then show ?case by (auto split: sum.splits pyval.splits)
next
  case (7 fs s)
  then show ?case by (auto split: sum.splits)
next
  case (8 s)
  then show ?case by simp
next
  case (9 name sc fs s)
  then show ?case by (fastforce split: sum.splits)
qed

lemma layout_size_LiveEvent: "layout_size LiveEvent = 35"
  by (simp add: LiveEvent_def)

lemma short_event_unparsable:
  assumes "length data < 35"
  shows "handle_live_event data = None"
proof -
  have "\<exists>e. parse LiveEvent data = Inl e"
  proof (cases "parse_stream LiveEvent data")
    case (Inl e)
    then show ?thesis by (simp add: parse_def)
  next
    case (Inr xr)
    obtain x r where "xr = (x, r)" by (cases xr)
    with Inr parse_stream_consumes(1) [of LiveEvent data x r] assms
    show ?thesis by (simp add: layout_size_LiveEvent)
  qed
  then show ?thesis
    by (auto simp: handle_live_event_def ebind_def)
qed

lemma monitor_events_idle:
  "in_waiting c = [] \<Longrightarrow> arriving c = [] \<Longrightarrow> monitor_events polls c = ([], None, c)"
proof (induction polls)
  case 0
  then show ?case by simp
next
  case (Suc polls)
  then show ?case by (simp add: available_def sleep_def)
qed

lemma ascii_front_door:
  "ascii ''Front Door'' = [0x46, 0x72, 0x6F, 0x6E, 0x74, 0x20, 0x44, 0x6F, 0x6F, 0x72]"
  by (simp add: ascii_def)

lemma decode_front_door:
  "decode_label (PBytes ([0x46, 0x72, 0x6F, 0x6E, 0x74, 0x20, 0x44, 0x6F, 0x6F, 0x72, 0, 0, 0, 0, 0, 0]))
     = Inr ''Front Door''"
  by code_simp

lemma handle_front_door_event:
  assumes "length frame = 37" and "frame ! 0 = 0xE1" and "frame ! 5 = 2"
    and "take 16 (drop 11 frame) = ascii ''Front Door'' @ replicate 6 0"
  shows "handle_live_event frame = Some (front_door_event frame)"
proof -
  from assms(1) obtain b0 b1 b2 b3 b4 b5 b6 b7 b8 b9 b10 b11 b12 b13 b14 b15 b16 b17 b18 b19 b20 b21 b22 b23 b24 b25 b26 b27 b28 b29 b30 b31 b32 b33 b34 b35 b36
    where f: "frame = [b0, b1, b2, b3, b4, b5, b6, b7, b8, b9, b10, b11, b12, b13, b14, b15, b16, b17, b18, b19, b20, b21, b22, b23, b24, b25, b26, b27, b28, b29, b30, b31, b32, b33, b34, b35, b36]"
    by (rule list37)
  from assms(2,3) have b: "b0 = 0xE1" "b5 = 2"
    by (simp_all add: f)
  from assms(4) have l: "[b11, b12, b13, b14, b15, b16, b17, b18, b19, b20, b21, b22, b23, b24, b25, b26]
      = [0x46, 0x72, 0x6F, 0x6E, 0x74, 0x20, 0x44, 0x6F, 0x6F, 0x72, 0, 0, 0, 0, 0, 0]"
    by (simp add: f ascii_front_door numeral_eq_Suc)
  have p: "take 16 (drop 11 frame) = [b11, b12, b13, b14, b15, b16, b17, b18, b19, b20, b21, b22, b23, b24, b25, b26]"
    by (simp add: f)
  show ?thesis
    unfolding f 
    by (simp add: handle_live_event_def LiveEvent_def ebind_def parse_def front_door_event_def
        l decode_front_door b del: list.inject)
qed

lemma monitor_yields_event:
  assumes "is_connected c" and "in_waiting c = frame" and "arriving c = []"
    and "length frame = 37" and "frame ! 0 = 0xE1" and "frame ! 5 = 2"
    and "take 16 (drop 11 frame) = ascii ''Front Door'' @ replicate 6 0"
  shows "fst (monitor_events (Suc polls) c) = [front_door_event frame]"
proof -
  have "37 \<le> unat (frame ! 0)"
    using assms(5) by simp
  from read_whole_frame [OF assms(1,2,4) this]
  have r: "read_variable_length 37 c = (Inr frame, c\<lparr>in_waiting := []\<rparr>)" .
  have a: "available c > 0"
    using assms(1,2,4) by (simp add: available_def)
  have s: "sleep (c\<lparr>in_waiting := []\<rparr>) = c\<lparr>in_waiting := []\<rparr>"
    using assms(3) by (simp add: sleep_def)
  have i: "monitor_events polls (c\<lparr>in_waiting := []\<rparr>) = ([], None, c\<lparr>in_waiting := []\<rparr>)"
    using assms(3) by (simp add: monitor_events_idle)
  have h: "handle_live_event frame = Some (front_door_event frame)"
    using assms(4-7) by (rule handle_front_door_event)
  show ?thesis
    using a r s i h assms(4,5) by simp
qed

lemma monitor_skips_frame:
  assumes "is_connected c" and "in_waiting c \<noteq> []"
    and "read_variable_length 37 c = (Inr data, c1)"
    and "\<not> (0xE0 \<le> uint (data ! 0) \<and> uint (data ! 0) \<le> 0xEF) \<or> length data < 35"
  shows "monitor_events (Suc polls) c = monitor_events polls (sleep c1)"
proof -
  have a: "available c > 0"
    using assms(1,2) by (simp add: available_def)
  from assms(4) show ?thesis
  proof
    assume "\<not> (0xE0 \<le> uint (data ! 0) \<and> uint (data ! 0) \<le> 0xEF)"
    then show ?thesis using a assms(3) by auto
  next
    assume "length data < 35"
    then have "handle_live_event data = None"
      by (rule short_event_unparsable)
    then show ?thesis using a assms(3) by (simp add: Let_def)
  qed
qed

lemma read_short_event_frame:
  assumes "is_connected c" and "in_waiting c = bad" and "bad \<noteq> []" and "length bad < 35"
    and "0xE0 \<le> uint (bad ! 0)"
  shows "read_variable_length 37 c = (Inr bad, c\<lparr>in_waiting := []\<rparr>)"
proof -
  obtain b rest where f: "bad = b # rest"
    using assms(3) by (cases bad) simp_all
  have iw: "in_waiting c = b # rest"
    using assms(2) f by simp
  have len: "length rest < 36"
    using assms(4) f by simp
  have "224 \<le> uint b"
    using assms(5) f by simp
  then have "224 \<le> int (unat b)"
    by (simp only: uint_nat)
  then have big: "224 \<le> unat b"
    by linarith
  have "read_variable_length 37 c = (Inr (b # rest), c\<lparr>in_waiting := []\<rparr>)"
    using assms(1) iw len big
    by (simp add: read_variable_length_def serial_read_def Let_def min_def)
  then show ?thesis
    by (simp only: f)
qed

lemma monitor_survives_malformed:
  assumes "is_connected c" and "in_waiting c = bad" and "bad \<noteq> []" and "length bad < 35"
    and "0xE0 \<le> uint (bad ! 0)" and "uint (bad ! 0) \<le> 0xEF" and "arriving c = [frame]"
    and "length frame = 37" and "frame ! 0 = 0xE1" and "frame ! 5 = 2"
    and "take 16 (drop 11 frame) = ascii ''Front Door'' @ replicate 6 0"
  shows "fst (monitor_events (Suc (Suc polls)) c) = [front_door_event frame]"
proof -
  let ?c1 = "c\<lparr>in_waiting := []\<rparr>"
  let ?c2 = "c\<lparr>in_waiting := frame, arriving := []\<rparr>"
  have r: "read_variable_length 37 c = (Inr bad, ?c1)"
    using assms(1-5) by (rule read_short_event_frame)
  have ne: "in_waiting c \<noteq> []"
    using assms(2,3) by simp
  have step: "monitor_events (Suc (Suc polls)) c = monitor_events (Suc polls) (sleep ?c1)"
    using monitor_skips_frame [OF assms(1) ne r, of "Suc polls"] assms(4) by simp
  have s: "sleep ?c1 = ?c2"
    using assms(7) by (simp add: sleep_def)
  have "fst (monitor_events (Suc polls) ?c2) = [front_door_event frame]"
    using assms(1) by (intro monitor_yields_event assms(8-11)) (simp_all add: is_connected_def)
  then show ?thesis
    using step s by simp
qed

lemma arriving_read_variable_length:
  "read_variable_length m c = (r, c1) \<Longrightarrow> arriving c1 = arriving c"
  by (auto simp: read_variable_length_def serial_read_def Let_def split: if_splits)

section \<open>Evaluations of the generic parser and of the password encoder\<close>

lemma initiate_request_built: "build_initiate_communication 0 = Inr initiate_request"
  by code_simp

lemma initiate_request_rejected: "parse_message initiate_request = None"
  by code_simp

lemma initiate_request_own_layout:
  "parse_field InitiateCommunication [''fields'', ''user_id''] initiate_request = Inr (PInt 0)"
  by code_simp

lemma perform_request_built: "build_perform_action 1 2 1 0 = Inr example_frame"
  by code_simp

lemma perform_request_action_lost:
  "decoded_field example_frame [''fields'', ''action''] = Some (Inl AttributeError)"
  by code_simp

lemma perform_request_argument_lost:
  "decoded_field example_frame [''fields'', ''argument''] = Some (Inl AttributeError)"
  by code_simp

lemma perform_request_user_id_kept:
  "decoded_field example_frame [''fields'', ''user_id''] = Some (Inr (PInt 0))"
  by code_simp

lemma perform_request_own_layout_action:
  "parse_field PerformAction [''fields'', ''action''] example_frame = Inr (PInt 1)"
  by code_simp

lemma perform_request_own_layout_argument:
  "parse_field PerformAction [''fields'', ''argument''] example_frame = Inr (PInt 2)"
  by code_simp

lemma eeprom_request_built: "build_read_eeprom 0x1234 3 1 0 = Inr eeprom_request"
  by code_simp

lemma eeprom_request_source_lost:
  "decoded_field eeprom_request [''fields'', ''source_id''] = Some (Inl AttributeError)"
  by code_simp

lemma request_entries_shadowed:
  "get_parser_by_command 0x40 = Some PerformActionResponse"
  "map_of parsers 0x40 = Some PerformAction"
  "get_parser_by_command 0x50 = Some ReadEEPROMResponse"
  "map_of parsers 0x50 = Some ReadEEPROM"
  by code_simp+

lemma encode_password_signs: "encode_password ''+1+2'' = Inr [0x01, 0x02]"
  by code_simp

lemma encode_password_spaces: "encode_password '' 1 2'' = Inr [0x01, 0x02]"
  by code_simp

lemma encode_password_examples:
  "encode_password ''0000'' = Inr [0x00, 0x00]"
  "encode_password ''abcd'' = Inr [0xAB, 0xCD]"
  "encode_password ''12'' = Inl ValueError"
  "encode_password ''zzzz'' = Inl ValueError"
  by code_simp+

lemma non_hex_password_sent:
  "sent (connection (snd (initialize_communication 1 identified_panel))) = [authentication_frame]"
  by code_simp

section \<open>Encode checksum invariant\<close>

text \<open>
  Claim C7. Every frame produced by the four builders (InitiateCommunication,
  InitializeCommunication MG/SP, PerformAction, ReadEEPROM) is exactly 37 bytes long and its
  final byte equals the sum of its first 36 bytes modulo 256, whenever the one-byte field
  arguments are in the range of a byte and the PC password is two bytes. The 16-bit arguments
  (panel id, EEPROM address) may be any integer: the builders mask them.
\<close>

theorem builders_checksum_invariant:
  "(in_byte_range user_id \<longrightarrow> checksummed_frame (build_initiate_communication user_id)) \<and>
   (in_byte_range product_id \<and> in_byte_range version \<and> in_byte_range revision
      \<and> in_byte_range minor \<and> length pc_password_bytes = 2 \<and> in_byte_range source_id
      \<and> in_byte_range user_id
    \<longrightarrow> checksummed_frame (build_initialize_communication_mgsp product_id
          (version, revision, minor) panel_id pc_password_bytes source_id user_id)) \<and>
   (in_byte_range action \<and> in_byte_range argument \<and> in_byte_range source_id
      \<and> in_byte_range user_id
    \<longrightarrow> checksummed_frame (build_perform_action action argument source_id user_id)) \<and>
   (in_byte_range records \<and> in_byte_range source_id \<and> in_byte_range user_id
    \<longrightarrow> checksummed_frame (build_read_eeprom address records source_id user_id))"
  by (simp add: initiate_communication_frame initialize_communication_mgsp_frame
      perform_action_frame read_eeprom_frame)

theorem builders_checksum_invariant_witness:
  "in_byte_range 0 \<and> in_byte_range 4 \<and> in_byte_range 2 \<and> in_byte_range 1
   \<and> length [0xAB, 0xCD :: byte] = 2 \<and> in_byte_range 3
   \<and> checksummed_frame (build_initiate_communication 0)
   \<and> checksummed_frame (build_initialize_communication_mgsp 4 (4, 2, 1) 1234 [0xAB, 0xCD] 1 0)
   \<and> checksummed_frame (build_perform_action 4 2 1 0)
   \<and> checksummed_frame (build_read_eeprom 0x1234 3 1 0)"
  using builders_checksum_invariant [where user_id = 0 and product_id = 4 and version = 4
      and revision = 2 and minor = 1 and pc_password_bytes = "[0xAB, 0xCD]" and source_id = 1
      and panel_id = 1234 and action = 4 and argument = 2 and records = 3
      and address = "0x1234"]
  by (simp add: in_byte_range_def)

section \<open>State gating\<close>

text \<open>
  Claim C3. Whenever the session is not authenticated, each of arm, disarm, zone bypass and
  memory read returns its failure value at once (\<open>False\<close>, or \<open>None\<close> for the memory read) and
  leaves the whole session, the connection and its log of written bytes included, exactly as
  it was: nothing is written to the transport.
\<close>

theorem commands_gated_by_authentication:
  "\<not> authenticated p \<Longrightarrow>
     arm_partition polls p part mode = (Inr False, p) \<and>
     disarm_partition polls p part = (Inr False, p) \<and>
     bypass_zone polls p zone = (Inr False, p) \<and>
     read_status polls p address records = (Inr None, p)"
  by (simp add: arm_partition_def disarm_partition_def bypass_zone_def read_status_def)

theorem commands_gated_by_authentication_witness:
  "\<not> authenticated (example_panel\<lparr>authenticated := False\<rparr>) \<and>
     arm_partition 5 (example_panel\<lparr>authenticated := False\<rparr>) 1 ''arm''
       = (Inr False, example_panel\<lparr>authenticated := False\<rparr>) \<and>
     disarm_partition 5 (example_panel\<lparr>authenticated := False\<rparr>) 1
       = (Inr False, example_panel\<lparr>authenticated := False\<rparr>) \<and>
     bypass_zone 5 (example_panel\<lparr>authenticated := False\<rparr>) 7
       = (Inr False, example_panel\<lparr>authenticated := False\<rparr>) \<and>
     read_status 5 (example_panel\<lparr>authenticated := False\<rparr>) 0 1
       = (Inr None, example_panel\<lparr>authenticated := False\<rparr>)"
proof -
  have h: "\<not> authenticated (example_panel\<lparr>authenticated := False\<rparr>)"
    by simp
  from commands_gated_by_authentication [OF h, of 5 1 "''arm''" 7 0 1] h
  show ?thesis by blast
qed

section \<open>Arm action mapping\<close>



section \<open>Framing heuristic\<close>

text \<open>
  Claim C6. On an open connection the frame reader, with its default maximum of 37, returns
  the empty result when no first byte arrives. Otherwise the target length is 37 when the
  first byte is at most 4 and the first byte's value clamped to 37 when it is greater than 4;
  the reader then takes the next target-minus-one bytes that arrive and returns them after
  the first byte, so the frame has the target length whenever that many bytes arrive.
\<close>

theorem framing_heuristic:
  "is_connected c \<Longrightarrow>
     (in_waiting c = [] \<longrightarrow> read_variable_length 37 c = (Inr [], c)) \<and>
     (in_waiting c = b # rest \<longrightarrow>
        (let target = (if unat b \<le> 4 then 37 else min (unat b) 37) in
         read_variable_length 37 c =
           (Inr (b # take (target - 1) rest), c\<lparr>in_waiting := drop (target - 1) rest\<rparr>)
         \<and> (target - 1 \<le> length rest \<longrightarrow> length (b # take (target - 1) rest) = target)))"
  by (auto simp: read_variable_length_def serial_read_def Let_def min_def)

theorem framing_heuristic_witness:
  "is_connected example_connection \<and> in_waiting example_connection = []
   \<and> read_variable_length 37 example_connection = (Inr [], example_connection)
   \<and> is_connected (example_connection\<lparr>in_waiting := 10 # replicate 40 7\<rparr>)
   \<and> fst (read_variable_length 37 (example_connection\<lparr>in_waiting := 10 # replicate 40 7\<rparr>))
       = Inr (10 # replicate 9 7)
   \<and> fst (read_variable_length 37 (example_connection\<lparr>in_waiting := 200 # replicate 40 7\<rparr>))
       = Inr (200 # replicate 36 7)
   \<and> fst (read_variable_length 37 (example_connection\<lparr>in_waiting := 3 # replicate 40 7\<rparr>))
       = Inr (3 # replicate 36 7)"
proof -
  have h: "is_connected example_connection" "in_waiting example_connection = []"
    "\<And>xs. is_connected (example_connection\<lparr>in_waiting := xs\<rparr>)"
    by (simp_all add: example_connection_def is_connected_def)
  show ?thesis
    using h framing_heuristic [OF h(1)]
      framing_heuristic [OF h(3), of "10 # replicate 40 7" 10 "replicate 40 7"]
      framing_heuristic [OF h(3), of "200 # replicate 40 7" 200 "replicate 40 7"]
      framing_heuristic [OF h(3), of "3 # replicate 40 7" 3 "replicate 40 7"]
    by (simp add: min_def)
qed

section \<open>Handshake response layout\<close>

text \<open>
  Claim C8, as stated, puts the source id at byte offset 27 and the user id at offset 28.
  The response layout places them after a 14-byte reserved field that starts at offset 15:
  in the example response the bytes at 27 and 28 are not the decoded source and user ids.
\<close>

theorem handshake_offsets_counterexample:
  "parse_field InitiateCommunicationResponse [''fields'', ''source_id''] example_response
     \<noteq> Inr (PInt (uint (example_response ! 27)))
   \<and> parse_field InitiateCommunicationResponse [''fields'', ''user_id''] example_response
     \<noteq> Inr (PInt (uint (example_response ! 28)))"
  by (simp add: example_response_def parse_field_def InitiateCommunicationResponse_def
      ebind_def parse_def ProductIdEnum_def)

text \<open>
  Claim C8, amended. Decoding a 37-byte InitiateCommunication response (command \<open>0x72\<close>,
  result \<open>0xFF\<close>) extracts the product id from offset 6 (as its enumeration label when the
  code is a known one), the firmware triple from offsets 7 to 9, the panel id as a big-endian
  16-bit value from offsets 10 and 11, the PC password from offsets 12 and 13, the source id
  from offset 29 and the user id from offset 30. When such a frame is the first to arrive
  after the handshake request on an open connection, the handshake returns and stores the
  identity made of the product id, firmware triple and string, panel id, PC password and
  source id; the user id is not part of the identity.
\<close>

theorem handshake_response_layout:
  assumes "length f = 37" and "f ! 0 = 0x72" and "f ! 1 = 0xFF"
  shows "parse_field InitiateCommunicationResponse [''fields'', ''product_id''] f
           = Inr (enum_decode product_ids (uint (f ! 6)))
    \<and> parse_field InitiateCommunicationResponse [''fields'', ''firmware_version'', ''version''] f
           = Inr (PInt (uint (f ! 7)))
    \<and> parse_field InitiateCommunicationResponse [''fields'', ''firmware_version'', ''revision''] f
           = Inr (PInt (uint (f ! 8)))
    \<and> parse_field InitiateCommunicationResponse [''fields'', ''firmware_version'', ''minor''] f
           = Inr (PInt (uint (f ! 9)))
    \<and> parse_field InitiateCommunicationResponse [''fields'', ''panel_id''] f
           = Inr (PInt (uint (f ! 10) * 256 + uint (f ! 11)))
    \<and> parse_field InitiateCommunicationResponse [''fields'', ''pc_password''] f
           = Inr (PBytes [f ! 12, f ! 13])
    \<and> parse_field InitiateCommunicationResponse [''fields'', ''source_id''] f
           = Inr (PInt (uint (f ! 29)))
    \<and> parse_field InitiateCommunicationResponse [''fields'', ''user_id''] f
           = Inr (PInt (uint (f ! 30)))
    \<and> (is_connected (connection p) \<and> arriving (connection p) = f # later \<longrightarrow>
         fst (initiate_communication (Suc (Suc polls)) p) = Inr (Some (handshake_identity f))
         \<and> panel_info (snd (initiate_communication (Suc (Suc polls)) p))
             = Some (handshake_identity f))"
  using handshake_response_fields [OF assms] initiate_communication_identifies [OF _ _ assms]
  by simp

theorem handshake_response_layout_witness:
  "length example_response = 37 \<and> example_response ! 0 = 0x72 \<and> example_response ! 1 = 0xFF
   \<and> is_connected (connection (example_panel\<lparr>connection :=
         example_connection\<lparr>arriving := [example_response]\<rparr>\<rparr>))
   \<and> arriving (connection (example_panel\<lparr>connection :=
         example_connection\<lparr>arriving := [example_response]\<rparr>\<rparr>)) = example_response # []
   \<and> parse_field InitiateCommunicationResponse [''fields'', ''source_id''] example_response
       = Inr (PInt (uint (example_response ! 29)))
   \<and> fst (initiate_communication (Suc (Suc 0)) (example_panel\<lparr>connection :=
         example_connection\<lparr>arriving := [example_response]\<rparr>\<rparr>))
       = Inr (Some (handshake_identity example_response))"
proof -
  have h: "length example_response = 37" "example_response ! 0 = 0x72"
    "example_response ! 1 = 0xFF"
    by (simp_all add: example_response_def)
  have c: "is_connected (connection (example_panel\<lparr>connection :=
         example_connection\<lparr>arriving := [example_response]\<rparr>\<rparr>))"
    "arriving (connection (example_panel\<lparr>connection :=
         example_connection\<lparr>arriving := [example_response]\<rparr>\<rparr>)) = example_response # []"
    by (simp_all add: example_connection_def is_connected_def)
  from handshake_response_layout [OF h, of "example_panel\<lparr>connection :=
         example_connection\<lparr>arriving := [example_response]\<rparr>\<rparr>" "[]" 0] h c
  show ?thesis by blast
qed

section \<open>Argument ranges\<close>

text \<open>
  Claim C10. The arm, disarm and zone bypass commands do not check the documented ranges of
  their numeric argument. In the authenticated state (and, for arm, with a mode of the
  partition action table), every argument \<open>n\<close> from 1 to 256 makes the command build and, on
  an open connection, write a frame whose byte at offset 5 is \<open>n - 1\<close>; every argument below
  1 or above 256 makes the frame builder raise \<open>ValueError\<close>, which the command lets through,
  and the session is left as it was: nothing is written.
\<close>

theorem argument_range_totality:
  assumes "authenticated p" and "map_of PARTITION_ACTIONS mode = Some code"
  shows "(1 \<le> n \<and> n \<le> 256 \<and> is_connected (connection p) \<longrightarrow>
           (\<exists>f1 f2 f3. uint (f1 ! 5) = n - 1 \<and> uint (f2 ! 5) = n - 1 \<and> uint (f3 ! 5) = n - 1
              \<and> sent (connection (snd (arm_partition polls p n mode))) = sent (connection p) @ [f1]
              \<and> sent (connection (snd (disarm_partition polls p n))) = sent (connection p) @ [f2]
              \<and> sent (connection (snd (bypass_zone polls p n))) = sent (connection p) @ [f3]))
       \<and> (n < 1 \<or> 256 < n \<longrightarrow>
             arm_partition polls p n mode = (Inl ValueError, p)
           \<and> disarm_partition polls p n = (Inl ValueError, p)
           \<and> bypass_zone polls p n = (Inl ValueError, p))"
proof (intro conjI impI)
  assume a: "1 \<le> n \<and> n \<le> 256 \<and> is_connected (connection p)"
  then have arg: "0 \<le> n - 1" "n - 1 < 256" and conn: "is_connected (connection p)"
    by simp_all
  have rng: "0 \<le> code" "code < 256"
    using partition_action_code_range [OF assms(2)] by simp_all
  from build_perform_action_Inr [OF rng arg] obtain f1 where
    f1: "build_perform_action code (n - 1) 0x01 0x00 = Inr f1" "uint (f1 ! 5) = n - 1"
    by blast
  from build_perform_action_Inr [of 5 "n - 1"] arg obtain f2 where
    f2: "build_perform_action 5 (n - 1) 0x01 0x00 = Inr f2" "uint (f2 ! 5) = n - 1"
    by auto
  from build_perform_action_Inr [of 16 "n - 1"] arg obtain f3 where
    f3: "build_perform_action 16 (n - 1) 0x01 0x00 = Inr f3" "uint (f3 ! 5) = n - 1"
    by auto
  have "sent (connection (snd (arm_partition polls p n mode))) = sent (connection p) @ [f1]"
    using assms f1(1) perform_and_confirm_sent [OF conn, of polls f1]
    by (simp add: arm_partition_def)
  moreover have "sent (connection (snd (disarm_partition polls p n))) = sent (connection p) @ [f2]"
    using assms(1) f2(1) perform_and_confirm_sent [OF conn, of polls f2]
    by (simp add: disarm_partition_def PARTITION_ACTIONS_def)
  moreover have "sent (connection (snd (bypass_zone polls p n))) = sent (connection p) @ [f3]"
    using assms(1) f3(1) perform_and_confirm_sent [OF conn, of polls f3]
    by (simp add: bypass_zone_def ZONE_ACTIONS_def)
  ultimately show "\<exists>f1 f2 f3. uint (f1 ! 5) = n - 1 \<and> uint (f2 ! 5) = n - 1
      \<and> uint (f3 ! 5) = n - 1
      \<and> sent (connection (snd (arm_partition polls p n mode))) = sent (connection p) @ [f1]
      \<and> sent (connection (snd (disarm_partition polls p n))) = sent (connection p) @ [f2]
      \<and> sent (connection (snd (bypass_zone polls p n))) = sent (connection p) @ [f3]"
    using f1(2) f2(2) f3(2) by blast
next
  assume b: "n < 1 \<or> 256 < n"
  then have bad: "n - 1 < 0 \<or> 256 \<le> n - 1"
    by auto
  have rng: "0 \<le> code" "code < 256"
    using partition_action_code_range [OF assms(2)] by simp_all
  show "arm_partition polls p n mode = (Inl ValueError, p)"
    using assms build_perform_action_ValueError [OF rng bad]
    by (simp add: arm_partition_def perform_and_confirm_Inl)
next
  assume b: "n < 1 \<or> 256 < n"
  then have bad: "n - 1 < 0 \<or> 256 \<le> n - 1"
    by auto
  show "disarm_partition polls p n = (Inl ValueError, p)"
    using assms(1) build_perform_action_ValueError [of 5 "n - 1", OF _ _ bad]
    by (simp add: disarm_partition_def perform_and_confirm_Inl PARTITION_ACTIONS_def)
next
  assume b: "n < 1 \<or> 256 < n"
  then have bad: "n - 1 < 0 \<or> 256 \<le> n - 1"
    by auto
  show "bypass_zone polls p n = (Inl ValueError, p)"
    using assms(1) build_perform_action_ValueError [of 16 "n - 1", OF _ _ bad]
    by (simp add: bypass_zone_def perform_and_confirm_Inl ZONE_ACTIONS_def)
qed

theorem argument_range_totality_witness:
  "authenticated example_panel \<and> map_of PARTITION_ACTIONS ''arm'' = Some 4
   \<and> (1::int) \<le> 200 \<and> (200::int) \<le> 256 \<and> is_connected (connection example_panel)
   \<and> (\<exists>f1 f2 f3. uint (f1 ! 5) = 200 - 1 \<and> uint (f2 ! 5) = 200 - 1 \<and> uint (f3 ! 5) = 200 - 1
        \<and> sent (connection (snd (arm_partition 2 example_panel 200 ''arm'')))
            = sent (connection example_panel) @ [f1]
        \<and> sent (connection (snd (disarm_partition 2 example_panel 200)))
            = sent (connection example_panel) @ [f2]
        \<and> sent (connection (snd (bypass_zone 2 example_panel 200)))
            = sent (connection example_panel) @ [f3])
   \<and> ((0::int) < 1 \<or> (256::int) < 0)
   \<and> arm_partition 2 example_panel 0 ''arm'' = (Inl ValueError, example_panel)
   \<and> disarm_partition 2 example_panel 0 = (Inl ValueError, example_panel)
   \<and> bypass_zone 2 example_panel 0 = (Inl ValueError, example_panel)
   \<and> ((300::int) < 1 \<or> (256::int) < 300)
   \<and> bypass_zone 2 example_panel 300 = (Inl ValueError, example_panel)"
proof -
  have h: "authenticated example_panel" "map_of PARTITION_ACTIONS ''arm'' = Some 4"
    by (simp_all add: example_panel_def PARTITION_ACTIONS_def)
  have c: "is_connected (connection example_panel)"
    by (simp add: example_panel_def example_connection_def is_connected_def)
  from argument_range_totality [OF h, of 200 2] argument_range_totality [OF h, of 0 2]
    argument_range_totality [OF h, of 300 2] h c
  show ?thesis by simp
qed

section \<open>Checksum verification\<close>

text \<open>
  Claim C2, as stated, makes decoding fail with a checksum error whenever the trailing byte is
  not the sum of the preceding bytes modulo 256. The decoder never looks at the checksum: the
  valid example frame with its byte at offset 5 changed from 2 to 3, and the trailing byte
  left alone, has a wrong checksum and still decodes.
\<close>

theorem decode_checksum_counterexample:
  "validate_checksum example_frame
   \<and> uint (last (example_frame[5 := 3]))
        \<noteq> sum_list (map uint (butlast (example_frame[5 := 3]))) mod 256
   \<and> parse_message (example_frame[5 := 3]) \<noteq> None"
  using example_frame_valid example_frame_mutated_invalid example_frame_mutated_decodes
  by (simp add: validate_checksum_iff)

text \<open>
  Claim C2, amended. The checksum is verified by \<open>validate_checksum\<close>, not by the decoder:
  \<open>validate_checksum\<close> accepts a message exactly when it has at least two bytes and its
  trailing byte equals the sum of the preceding bytes modulo 256; changing any single byte
  at offsets 0 to 35 of a valid 37-byte frame to a different value, without recomputing the
  trailing byte, makes \<open>validate_checksum\<close> reject it (one changed byte always changes the
  sum modulo 256); whether \<open>parse_message\<close> decodes a 37-byte frame does not depend on the
  trailing byte.
\<close>

theorem checksum_validation:
  "(validate_checksum data \<longleftrightarrow>
      2 \<le> length data \<and> uint (last data) = sum_list (map uint (butlast data)) mod 256)
   \<and> (length f = 37 \<and> validate_checksum f \<and> i < 36 \<and> v \<noteq> f ! i
        \<longrightarrow> \<not> validate_checksum (f[i := v]))
   \<and> (length f = 37 \<longrightarrow> (parse_message (f[36 := c]) = None \<longleftrightarrow> parse_message f = None))"
  using validate_checksum_iff [of data] mutation_detected [of f i v]
    parse_message_ignores_checksum [of f c]
  by blast

theorem checksum_validation_witness:
  "length example_frame = 37 \<and> validate_checksum example_frame \<and> (5::nat) < 36
   \<and> 3 \<noteq> example_frame ! 5
   \<and> \<not> validate_checksum (example_frame[5 := 3])
   \<and> (parse_message (example_frame[36 := 0]) = None \<longleftrightarrow> parse_message example_frame = None)"
proof -
  have h: "length example_frame = 37" "(5::nat) < 36" "3 \<noteq> example_frame ! 5"
    by (simp_all add: example_frame_def)
  from checksum_validation [of example_frame example_frame 5 3 0] h example_frame_valid
  show ?thesis by blast
qed

section \<open>Event monitoring\<close>

text \<open>
  Claim C9. On an open connection, when the stream holds exactly one live-event frame
  (37 bytes, command \<open>0xE1\<close>, partition byte 2, label bytes ``Front Door'' padded with NUL to
  16 bytes), the monitor yields exactly one event record, with partition 2 and label
  ``Front Door''. A frame that is not a live event (command outside \<open>0xE0..0xEF\<close>) or that
  cannot be parsed (shorter than the 35 bytes of the event layout) yields nothing, and the
  loop goes on with its remaining polls on the rest of the stream; in particular, after a
  truncated event frame the loop still yields the event of a well-formed frame that arrives
  later.
\<close>

theorem event_monitoring:
  assumes "is_connected c" and "length frame = 37" and "frame ! 0 = 0xE1" and "frame ! 5 = 2"
    and "take 16 (drop 11 frame) = ascii ''Front Door'' @ replicate 6 0"
  shows "(in_waiting c = frame \<and> arriving c = [] \<longrightarrow>
            fst (monitor_events (Suc polls) c) = [front_door_event frame]
          \<and> event_partition (front_door_event frame) = PInt 2
          \<and> event_label (front_door_event frame) = ''Front Door'')
    \<and> (in_waiting c \<noteq> [] \<and> read_variable_length 37 c = (Inr data, c1)
         \<and> (\<not> (0xE0 \<le> uint (data ! 0) \<and> uint (data ! 0) \<le> 0xEF) \<or> length data < 35) \<longrightarrow>
            monitor_events (Suc polls) c = monitor_events polls (sleep c1)
          \<and> (in_waiting c1 = [] \<and> arriving c = [] \<longrightarrow> fst (monitor_events (Suc polls) c) = []))
    \<and> (in_waiting c = bad \<and> bad \<noteq> [] \<and> length bad < 35 \<and> 0xE0 \<le> uint (bad ! 0)
         \<and> uint (bad ! 0) \<le> 0xEF \<and> arriving c = [frame] \<longrightarrow>
            fst (monitor_events (Suc (Suc polls)) c) = [front_door_event frame])"
proof (intro conjI impI)
  assume "in_waiting c = frame \<and> arriving c = []"
  then show "fst (monitor_events (Suc polls) c) = [front_door_event frame]"
    using monitor_yields_event [OF assms(1) _ _ assms(2-5)] by simp
next
  show "event_partition (front_door_event frame) = PInt 2"
    by (simp add: front_door_event_def)
next
  show "event_label (front_door_event frame) = ''Front Door''"
    by (simp add: front_door_event_def)
next
  assume a: "in_waiting c \<noteq> [] \<and> read_variable_length 37 c = (Inr data, c1)
         \<and> (\<not> (0xE0 \<le> uint (data ! 0) \<and> uint (data ! 0) \<le> 0xEF) \<or> length data < 35)"
  then show step: "monitor_events (Suc polls) c = monitor_events polls (sleep c1)"
    using monitor_skips_frame [OF assms(1), of data c1 polls] by blast
  assume "in_waiting c1 = [] \<and> arriving c = []"
  then have "in_waiting c1 = []" "arriving c1 = []"
    using a arriving_read_variable_length [of 37 c "Inr data" c1] by simp_all
  then have "sleep c1 = c1" "monitor_events polls c1 = ([], None, c1)"
    by (simp_all add: sleep_def monitor_events_idle)
  then show "fst (monitor_events (Suc polls) c) = []"
    using step by simp
next
  assume "in_waiting c = bad \<and> bad \<noteq> [] \<and> length bad < 35 \<and> 0xE0 \<le> uint (bad ! 0)
         \<and> uint (bad ! 0) \<le> 0xEF \<and> arriving c = [frame]"
  then show "fst (monitor_events (Suc (Suc polls)) c) = [front_door_event frame]"
    using monitor_survives_malformed [OF assms(1) _ _ _ _ _ _ assms(2-5), of bad polls] by blast
qed

theorem event_monitoring_witness:
  "is_connected (example_connection\<lparr>in_waiting := example_event\<rparr>)
   \<and> length example_event = 37 \<and> example_event ! 0 = 0xE1 \<and> example_event ! 5 = 2
   \<and> take 16 (drop 11 example_event) = ascii ''Front Door'' @ replicate 6 0
   \<and> fst (monitor_events (Suc 0) (example_connection\<lparr>in_waiting := example_event\<rparr>))
       = [front_door_event example_event]
   \<and> read_variable_length 37 (example_connection\<lparr>in_waiting := example_frame\<rparr>)
       = (Inr example_frame, example_connection)
   \<and> \<not> (0xE0 \<le> uint (example_frame ! 0) \<and> uint (example_frame ! 0) \<le> 0xEF)
   \<and> fst (monitor_events (Suc 0) (example_connection\<lparr>in_waiting := example_frame\<rparr>)) = []
   \<and> length (take 20 example_event) < 35
   \<and> fst (monitor_events (Suc (Suc 0))
        (example_connection\<lparr>in_waiting := take 20 example_event, arriving := [example_event]\<rparr>))
       = [front_door_event example_event]"
proof -
  have c: "\<And>xs ys. is_connected (example_connection\<lparr>in_waiting := xs, arriving := ys\<rparr>)"
    "\<And>xs. is_connected (example_connection\<lparr>in_waiting := xs\<rparr>)"
    by (simp_all add: example_connection_def is_connected_def)
  have e: "length example_event = 37" "example_event ! 0 = 0xE1" "example_event ! 5 = 2"
    by (simp_all add: example_event_def)
  have l: "take 16 (drop 11 example_event) = ascii ''Front Door'' @ replicate 6 0"
    by (simp add: example_event_def ascii_front_door numeral_eq_Suc)
  have f: "length example_frame = 37" "37 \<le> unat (example_frame ! 0)"
    "\<not> (0xE0 \<le> uint (example_frame ! 0) \<and> uint (example_frame ! 0) \<le> 0xEF)"
    "example_frame \<noteq> []"
    by (simp_all add: example_frame_def)
  have r: "read_variable_length 37 (example_connection\<lparr>in_waiting := example_frame\<rparr>)
       = (Inr example_frame, example_connection)"
    using read_whole_frame [OF c(2) _ f(1,2), of example_frame]
    by (simp add: example_connection_def)
  have t: "take 20 example_event \<noteq> []" "length (take 20 example_event) < 35"
    "0xE0 \<le> uint (take 20 example_event ! 0)" "uint (take 20 example_event ! 0) \<le> 0xEF"
    by (simp_all add: example_event_def)
  have x: "in_waiting example_connection = []" "arriving example_connection = []"
    by (simp_all add: example_connection_def)
  have a: "fst (monitor_events (Suc 0) (example_connection\<lparr>in_waiting := example_event\<rparr>))
       = [front_door_event example_event]"
    using event_monitoring [where c = "example_connection\<lparr>in_waiting := example_event\<rparr>"
        and frame = example_event and polls = 0, OF c(2) e l] x
    by simp
  have b: "fst (monitor_events (Suc 0) (example_connection\<lparr>in_waiting := example_frame\<rparr>)) = []"
    using event_monitoring [where c = "example_connection\<lparr>in_waiting := example_frame\<rparr>"
        and frame = example_event and polls = 0 and data = example_frame
        and ?c1.0 = example_connection, OF c(2) e l] r f x
    by simp
  have d: "fst (monitor_events (Suc (Suc 0))
        (example_connection\<lparr>in_waiting := take 20 example_event, arriving := [example_event]\<rparr>))
       = [front_door_event example_event]"
    using event_monitoring [where c = "example_connection\<lparr>in_waiting := take 20 example_event,
          arriving := [example_event]\<rparr>"
        and frame = example_event and polls = 0 and bad = "take 20 example_event",
        OF c(1) e l] t
    by simp
  show ?thesis
    using c(2) e l a r f(3) b t(2) d by blast
qed

section \<open>Round trip through the generic parser\<close>

text \<open>
  Claim C1 asks that decoding a built frame gives back the fields passed to the builder, in
  particular for the PerformAction, ReadEEPROM and InitiateCommunication requests passed to
  the generic parser. The code does not do that. The handshake request built with user id 0
  is rejected by the generic parser, which knows command \<open>0x72\<close> only as the response layout
  with its result byte \<open>0xFF\<close>, although the request's own layout reads it. The PerformAction
  request with action 1 and argument 2 is decoded by the response layout, selected by the
  range test before the dictionary entry for \<open>0x40\<close> is looked up: the decoded message has no
  action and no argument field, which the request layout would give. The ReadEEPROM request
  loses its source id the same way.
\<close>

theorem generic_parser_misses_requests:
  "build_initiate_communication 0 = Inr initiate_request
   \<and> parse_message initiate_request = None
   \<and> parse_field InitiateCommunication [''fields'', ''user_id''] initiate_request = Inr (PInt 0)
   \<and> build_perform_action 1 2 1 0 = Inr example_frame
   \<and> get_parser_by_command 0x40 = Some PerformActionResponse
   \<and> map_of parsers 0x40 = Some PerformAction
   \<and> decoded_field example_frame [''fields'', ''user_id''] = Some (Inr (PInt 0))
   \<and> decoded_field example_frame [''fields'', ''action''] = Some (Inl AttributeError)
   \<and> decoded_field example_frame [''fields'', ''argument''] = Some (Inl AttributeError)
   \<and> parse_field PerformAction [''fields'', ''action''] example_frame = Inr (PInt 1)
   \<and> parse_field PerformAction [''fields'', ''argument''] example_frame = Inr (PInt 2)
   \<and> build_read_eeprom 0x1234 3 1 0 = Inr eeprom_request
   \<and> get_parser_by_command 0x50 = Some ReadEEPROMResponse
   \<and> map_of parsers 0x50 = Some ReadEEPROM
   \<and> decoded_field eeprom_request [''fields'', ''source_id''] = Some (Inl AttributeError)"
  using initiate_request_built initiate_request_rejected initiate_request_own_layout
    perform_request_built request_entries_shadowed perform_request_user_id_kept
    perform_request_action_lost
    perform_request_argument_lost perform_request_own_layout_action
    perform_request_own_layout_argument eeprom_request_built eeprom_request_source_lost
  by (intro conjI) assumption+

section \<open>Password encoding\<close>

text \<open>
  Claim C4 asks that a password be rejected, before anything is sent, exactly when it is
  not four hexadecimal digits. The encoder converts each half of the string with the
  library's base-16 integer conversion, which also accepts a sign or white space next to a
  digit: \<open>+1+2\<close> and a string of blanks and digits are encoded as the bytes 1 and 2, and
  the session configured with \<open>+1+2\<close> writes an authentication frame carrying them at
  offsets 7 and 8. The examples of the claim itself behave as it says.
\<close>

theorem password_encoder_accepts_non_hex:
  "encode_password ''+1+2'' = Inr [0x01, 0x02]
   \<and> encode_password '' 1 2'' = Inr [0x01, 0x02]
   \<and> sent (connection (snd (initialize_communication 1 identified_panel)))
       = [authentication_frame]
   \<and> encode_password ''0000'' = Inr [0x00, 0x00]
   \<and> encode_password ''abcd'' = Inr [0xAB, 0xCD]
   \<and> encode_password ''12'' = Inl ValueError
   \<and> encode_password ''zzzz'' = Inl ValueError"
  using encode_password_signs encode_password_spaces non_hex_password_sent
    encode_password_examples
  by (intro conjI) assumption+

end
